theory Spec2Isabelle
  imports Main "HOL-Library.Word"
begin

section \<open>JSON values as Python sees them\<close>

text \<open>
  The server (\<^verbatim>\<open>src/server/main.py\<close>) handles the bodies of the RunningHub replies and its own
  \<^verbatim>\<open>meta.json\<close> as the values \<^verbatim>\<open>json.loads\<close> produces: \<^verbatim>\<open>None\<close>, booleans, integers, floats,
  strings, lists and dictionaries with string keys. A dictionary keeps the insertion order of
  its keys, and \<^verbatim>\<open>x.values()\<close> iterates in that order, so a dictionary is an association list.
  A float is kept as sign, mantissa and binary exponent (or infinity, or NaN); the program only
  ever tests a float for truth.
\<close>

datatype pyfloat = PyFloat bool nat int | PyInf bool | PyNaN

datatype json =
    JNull
  | JBool bool
  | JInt int
  | JFloat pyfloat
  | JStr string
  | JList "json list"
  | JDict "(string \<times> json) list"

type_synonym dict = "(string \<times> json) list"

type_synonym bytes = "8 word list"

text \<open>\<^verbatim>\<open>x.get(k)\<close> on a dictionary: the value, \<^verbatim>\<open>None\<close> for a missing key.\<close>

definition dict_get :: "dict \<Rightarrow> string \<Rightarrow> json" where
  "dict_get d k = (case map_of d k of None \<Rightarrow> JNull | Some v \<Rightarrow> v)"

text \<open>\<^verbatim>\<open>x.get(k, default)\<close> on a dictionary.\<close>

definition dict_get_default :: "dict \<Rightarrow> string \<Rightarrow> json \<Rightarrow> json" where
  "dict_get_default d k dflt = (case map_of d k of None \<Rightarrow> dflt | Some v \<Rightarrow> v)"

definition dict_values :: "dict \<Rightarrow> json list" where
  "dict_values d = map snd d"

text \<open>\<^verbatim>\<open>x[k] = v\<close> on a dictionary: an existing key keeps its position, a new key goes last.\<close>

fun dict_set :: "dict \<Rightarrow> string \<Rightarrow> json \<Rightarrow> dict" where
  "dict_set [] k v = [(k, v)]"
| "dict_set (p # ps) k v = (if fst p = k then (k, v) # ps else p # dict_set ps k v)"

text \<open>\<^verbatim>\<open>s.startswith(p)\<close>.\<close>

definition startswith :: "string \<Rightarrow> string \<Rightarrow> bool" where
  "startswith s p = (take (length p) s = p)"

text \<open>
  A \<^verbatim>\<open>str\<close> is kept as the bytes of its UTF-8 form, so that \<^verbatim>\<open>startswith\<close>, comparison and
  concatenation are those of byte lists. A \<^verbatim>\<open>str\<close> may hold a lone surrogate (\<^verbatim>\<open>json.loads\<close> makes
  one of an escaped U+D800 in a JSON text); it is kept as the three bytes its code point would get, the
  byte ED followed by a byte from A0 to BF and a third one. These are the strings that
  \<^verbatim>\<open>encode("utf-8")\<close> refuses, and so does \<^verbatim>\<open>write_text\<close> of a \<^verbatim>\<open>json.dumps\<close> with
  \<^verbatim>\<open>ensure_ascii=False\<close> when a key or a string of the value is one.
\<close>

fun has_surrogate :: "string \<Rightarrow> bool" where
  "has_surrogate (a # b # cs) =
     ((of_char a = (237::nat) \<and> (160::nat) \<le> of_char b) \<or> has_surrogate (b # cs))"
| "has_surrogate cs = False"

definition str_encodable :: "string \<Rightarrow> bool" where
  "str_encodable s = (\<not> has_surrogate s)"

fun json_encodable :: "json \<Rightarrow> bool" where
  "json_encodable (JStr s) = str_encodable s"
| "json_encodable (JList xs) = list_all json_encodable xs"
| "json_encodable (JDict d) = list_all (\<lambda>p. str_encodable (fst p) \<and> json_encodable (snd p)) d"
| "json_encodable JNull = True"
| "json_encodable (JBool b) = True"
| "json_encodable (JInt i) = True"
| "json_encodable (JFloat f) = True"

text \<open>Python's truth value of a JSON value, as \<^verbatim>\<open>or\<close>, \<^verbatim>\<open>not\<close> and \<^verbatim>\<open>if\<close> test it.\<close>

fun float_truthy :: "pyfloat \<Rightarrow> bool" where
  "float_truthy (PyFloat s m ex) = (m \<noteq> 0)"
| "float_truthy (PyInf s) = True"
| "float_truthy PyNaN = True"

fun truthy :: "json \<Rightarrow> bool" where
  "truthy JNull = False"
| "truthy (JBool b) = b"
| "truthy (JInt i) = (i \<noteq> 0)"
| "truthy (JFloat f) = float_truthy f"
| "truthy (JStr s) = (s \<noteq> [])"
| "truthy (JList xs) = (xs \<noteq> [])"
| "truthy (JDict d) = (d \<noteq> [])"

text \<open>\<^verbatim>\<open>a or b\<close>.\<close>

definition py_or :: "json \<Rightarrow> json \<Rightarrow> json" where
  "py_or a b = (if truthy a then a else b)"

section \<open>URL extraction: \<^verbatim>\<open>find_first_http_url\<close>\<close>

text \<open>
  \<^verbatim>\<open>walk\<close> appends to the list \<^verbatim>\<open>found\<close> of the enclosing function; here it takes the list and
  returns it extended. A list is walked element by element. In a dictionary the four
  candidate keys are tried first, in the order of the literal list, and then every value of
  the dictionary is walked. Anything else is left alone.
\<close>

definition candidate_keys :: "string list" where
  "candidate_keys = [''fileUrl'', ''url'', ''file'', ''path'']"

fun check_key :: "dict \<Rightarrow> string \<Rightarrow> string list \<Rightarrow> string list" where
  "check_key x k found =
     (case dict_get x k of
        JStr v \<Rightarrow> if startswith v ''http'' then found @ [v] else found
      | _ \<Rightarrow> found)"

function walk :: "json \<Rightarrow> string list \<Rightarrow> string list" where
  "walk (JList xs) found = fold walk xs found"
| "walk (JDict x) found = fold walk (dict_values x) (fold (check_key x) candidate_keys found)"
| "walk JNull found = found"
| "walk (JBool b) found = found"
| "walk (JInt i) found = found"
| "walk (JFloat f) found = found"
| "walk (JStr s) found = found"
  by pat_completeness auto
termination
  apply (relation "measure (\<lambda>(x, found). size x)")
    apply (auto simp: dict_values_def)
  subgoal for xs x
    by (induction xs) auto
  subgoal for x k v
    by (induction x) auto
  done

definition find_first_http_url :: "json \<Rightarrow> string option" where
  "find_first_http_url obj =
     (let found = walk obj [] in
      if found \<noteq> [] then Some (found ! 0) else None)"

section \<open>The world the server runs in\<close>

text \<open>
  Exceptions are values. \<^verbatim>\<open>RuntimeError\<close> carries the fixed part of its message; the part
  that prints a reply is left out.
\<close>

datatype exn =
    RuntimeError string
  | TransportError
  | DownloadError
  | DriveError
  | AttributeError
  | TypeError
  | JSONDecodeError
  | UnicodeEncodeError
  | MkdirError

text \<open>
  What \<^verbatim>\<open>client.post\<close> gives back: no reply at all (the call raises), or a status code with
  a body that \<^verbatim>\<open>r.json()\<close> either parses or fails on.
\<close>

datatype http_body = Json json | Text string

datatype http_reply = NoReply | Reply nat http_body

text \<open>
  The text of \<^verbatim>\<open>meta.json\<close>: what \<^verbatim>\<open>json.dumps\<close> wrote, standing for the value it was written
  from, or some other text that \<^verbatim>\<open>json.loads\<close> fails on (the empty text is one).
\<close>

datatype file_text = JsonText json | OtherText

text \<open>An archive entry is the directory \<^verbatim>\<open>ARCHIVE_DIR / archive_id\<close> with its three files.\<close>

record entry =
  input_jpg :: "bytes option"
  output_png :: "bytes option"
  meta_json :: "file_text option"

definition empty_entry :: entry where
  "empty_entry = \<lparr>input_jpg = None, output_png = None, meta_json = None\<rparr>"

datatype upload = UploadBytes bytes | UploadJson json

text \<open>
  The state the handlers read and change: the archive directory, the requests posted to
  RunningHub so far, the URLs fetched, the seconds slept, the number of calls made to the
  Drive client, the files that reached Drive (folder, name, content), the number of readings
  of the clock and of the random sources, and the background tasks handed to the framework.
\<close>

record world =
  archive :: "string \<Rightarrow> entry option"
  rh_calls :: "(string \<times> json) list"
  downloads :: "string list"
  slept :: nat
  drive_calls :: nat
  drive_files :: "(json \<times> string \<times> upload) list"
  clock :: nat
  background :: "(json \<times> string) list"

text \<open>
  The configuration read from the environment at start, and the behaviour of everything
  outside the process: the \<open>n\<close>-th request to RunningHub is answered by \<open>rh_reply\<close>, the
  \<open>n\<close>-th download by \<open>get_reply\<close> (\<open>None\<close> when \<^verbatim>\<open>client.get\<close> or \<^verbatim>\<open>raise_for_status\<close> raises),
  the \<open>n\<close>-th call to the Drive client by the three Drive fields, and the \<open>n\<close>-th reading of
  the clock, of the archive id source and of the random generator by the next three.
  \<open>mkdir_ok\<close> says for which archive ids the operating system makes the directory
  \<^verbatim>\<open>ARCHIVE_DIR / archive_id\<close> (it refuses a name with a NUL byte or one that is too long).
\<close>

record env =
  API_KEY :: string
  WORKFLOW_ID :: string
  BASE :: string
  GDRIVE_ENABLED :: bool
  GDRIVE_ROOT_FOLDER_ID :: string
  rh_reply :: "nat \<Rightarrow> string \<Rightarrow> json \<Rightarrow> http_reply"
  get_reply :: "nat \<Rightarrow> string \<Rightarrow> bytes option"
  get_drive_ok :: "nat \<Rightarrow> bool"
  create_folder_reply :: "nat \<Rightarrow> string \<Rightarrow> string \<Rightarrow> string option"
  upload_ok :: "nat \<Rightarrow> string \<Rightarrow> json \<Rightarrow> bool"
  now_iso :: "nat \<Rightarrow> string"
  archive_id_at :: "nat \<Rightarrow> string"
  random_seed :: "nat \<Rightarrow> int"
  b64encode :: "bytes \<Rightarrow> string"
  mkdir_ok :: "string \<Rightarrow> bool"

definition RH_CREATE :: "env \<Rightarrow> string" where
  "RH_CREATE e = BASE e @ ''/task/openapi/create''"

definition RH_OUTPUTS :: "env \<Rightarrow> string" where
  "RH_OUTPUTS e = BASE e @ ''/task/openapi/outputs''"

subsection \<open>Files of an archive entry\<close>

definition entry_of :: "world \<Rightarrow> string \<Rightarrow> entry" where
  "entry_of w archive_id = (case archive w archive_id of None \<Rightarrow> empty_entry | Some en \<Rightarrow> en)"

text \<open>
  \<^verbatim>\<open>get_play_dir\<close>: \<^verbatim>\<open>mkdir(parents=True, exist_ok=True)\<close> leaves an existing directory as it
  is, makes a missing one, and raises when the directory cannot be made (an \<^verbatim>\<open>OSError\<close>, or
  the \<^verbatim>\<open>ValueError\<close> of a name with a NUL byte; \<open>MkdirError\<close> stands for both).
\<close>

definition make_dir :: "string \<Rightarrow> world \<Rightarrow> world" where
  "make_dir archive_id w =
     (case archive w archive_id of
        None \<Rightarrow> w\<lparr>archive := (archive w)(archive_id \<mapsto> empty_entry)\<rparr>
      | Some en \<Rightarrow> w)"

definition get_play_dir :: "env \<Rightarrow> string \<Rightarrow> world \<Rightarrow> exn + world" where
  "get_play_dir e archive_id w =
     (if archive w archive_id \<noteq> None \<or> mkdir_ok e archive_id
      then Inr (make_dir archive_id w) else Inl MkdirError)"

definition write_input :: "string \<Rightarrow> bytes \<Rightarrow> world \<Rightarrow> world" where
  "write_input archive_id b w =
     w\<lparr>archive := (archive w)(archive_id \<mapsto> (entry_of w archive_id)\<lparr>input_jpg := Some b\<rparr>)\<rparr>"

definition write_output :: "string \<Rightarrow> bytes \<Rightarrow> world \<Rightarrow> world" where
  "write_output archive_id b w =
     w\<lparr>archive := (archive w)(archive_id \<mapsto> (entry_of w archive_id)\<lparr>output_png := Some b\<rparr>)\<rparr>"

text \<open>
  \<^verbatim>\<open>meta_path.write_text(json.dumps(meta, indent=2, ensure_ascii=False), encoding="utf-8")\<close>:
  the file is opened for writing, which empties it, and then the text is encoded and
  written. When the encoding fails the call raises and the file stays empty.
\<close>

definition store_meta :: "string \<Rightarrow> file_text \<Rightarrow> world \<Rightarrow> world" where
  "store_meta archive_id txt w =
     w\<lparr>archive := (archive w)(archive_id \<mapsto>
          (entry_of w archive_id)\<lparr>meta_json := Some txt\<rparr>)\<rparr>"

definition write_meta :: "string \<Rightarrow> json \<Rightarrow> world \<Rightarrow> (exn + unit) \<times> world" where
  "write_meta archive_id meta w =
     (if json_encodable meta then (Inr (), store_meta archive_id (JsonText meta) w)
      else (Inl UnicodeEncodeError, store_meta archive_id OtherText w))"

text \<open>
  The start of \<^verbatim>\<open>finalize_job\<close>: \<^verbatim>\<open>meta\<close> is the empty dictionary unless \<^verbatim>\<open>meta.json\<close> exists,
  and then it is what \<^verbatim>\<open>json.loads\<close> makes of its text.
\<close>

definition read_meta :: "string \<Rightarrow> world \<Rightarrow> exn + json" where
  "read_meta archive_id w =
     (case meta_json (entry_of w archive_id) of
        None \<Rightarrow> Inr (JDict [])
      | Some (JsonText j) \<Rightarrow> Inr j
      | Some OtherText \<Rightarrow> Inl JSONDecodeError)"

text \<open>\<^verbatim>\<open>x.get(k)\<close>, \<^verbatim>\<open>x.get(k, default)\<close> and \<^verbatim>\<open>x[k] = v\<close> on any value: only a dictionary has them.\<close>

definition py_get :: "json \<Rightarrow> string \<Rightarrow> exn + json" where
  "py_get x k = (case x of JDict d \<Rightarrow> Inr (dict_get d k) | _ \<Rightarrow> Inl AttributeError)"

definition py_get_default :: "json \<Rightarrow> string \<Rightarrow> json \<Rightarrow> exn + json" where
  "py_get_default x k dflt =
     (case x of JDict d \<Rightarrow> Inr (dict_get_default d k dflt) | _ \<Rightarrow> Inl AttributeError)"

definition set_item :: "json \<Rightarrow> string \<Rightarrow> json \<Rightarrow> exn + json" where
  "set_item x k v = (case x of JDict d \<Rightarrow> Inr (JDict (dict_set d k v)) | _ \<Rightarrow> Inl TypeError)"

definition sleep :: "nat \<Rightarrow> world \<Rightarrow> world" where
  "sleep secs w = w\<lparr>slept := slept w + secs\<rparr>"

text \<open>\<^verbatim>\<open>datetime.now().isoformat()\<close>.\<close>

definition now :: "env \<Rightarrow> world \<Rightarrow> string \<times> world" where
  "now e w = (now_iso e (clock w), w\<lparr>clock := Suc (clock w)\<rparr>)"

section \<open>The RunningHub client\<close>

text \<open>
  \<^verbatim>\<open>rh_post_json\<close>: the request is sent; a body that does not parse becomes \<^verbatim>\<open>{"raw": text}\<close>;
  a status of 400 or more raises; otherwise the parsed body is returned.
\<close>

definition body_json :: "http_body \<Rightarrow> json" where
  "body_json body = (case body of Json j \<Rightarrow> j | Text t \<Rightarrow> JDict [(''raw'', JStr t)])"

definition rh_post_json :: "env \<Rightarrow> string \<Rightarrow> json \<Rightarrow> world \<Rightarrow> (exn + json) \<times> world" where
  "rh_post_json e url payload w =
     (let w' = w\<lparr>rh_calls := rh_calls w @ [(url, payload)]\<rparr> in
      case rh_reply e (length (rh_calls w)) url payload of
        NoReply \<Rightarrow> (Inl TransportError, w')
      | Reply status body \<Rightarrow>
          (let j = body_json body in
           if status \<ge> 400 then (Inl (RuntimeError ''RunningHub HTTP''), w')
           else (Inr j, w')))"

text \<open>\<^verbatim>\<open>extract_task_id\<close>. A reply that is not a dictionary has no \<^verbatim>\<open>get\<close>.\<close>

definition extract_task_id :: "json \<Rightarrow> exn + json" where
  "extract_task_id resp =
     (case resp of
        JDict r \<Rightarrow>
          (case dict_get r ''data'' of
             JDict data \<Rightarrow>
               Inr (py_or (py_or (dict_get data ''taskId'') (dict_get data ''task_id''))
                          (dict_get data ''id''))
           | JStr s \<Rightarrow> Inr (JStr s)
           | _ \<Rightarrow> Inr (py_or (dict_get r ''taskId'') (dict_get r ''task_id'')))
      | _ \<Rightarrow> Inl AttributeError)"

section \<open>The Drive client\<close>

text \<open>
  Each call to the Drive client is one more call in \<open>drive_calls\<close>, and the environment says
  whether it goes through. An upload that goes through adds the file to \<open>drive_files\<close>.
\<close>

definition get_drive :: "env \<Rightarrow> world \<Rightarrow> (exn + unit) \<times> world" where
  "get_drive e w =
     (let w' = w\<lparr>drive_calls := Suc (drive_calls w)\<rparr> in
      if get_drive_ok e (drive_calls w) then (Inr (), w') else (Inl DriveError, w'))"

definition drive_create_folder ::
  "env \<Rightarrow> string \<Rightarrow> string \<Rightarrow> world \<Rightarrow> (exn + string) \<times> world" where
  "drive_create_folder e name parent_id w =
     (let w' = w\<lparr>drive_calls := Suc (drive_calls w)\<rparr> in
      case create_folder_reply e (drive_calls w) name parent_id of
        None \<Rightarrow> (Inl DriveError, w')
      | Some folder_id \<Rightarrow> (Inr folder_id, w'))"

definition drive_upload_bytes ::
  "env \<Rightarrow> string \<Rightarrow> upload \<Rightarrow> string \<Rightarrow> json \<Rightarrow> world \<Rightarrow> (exn + unit) \<times> world" where
  "drive_upload_bytes e name content mime parent_id w =
     (let w' = w\<lparr>drive_calls := Suc (drive_calls w)\<rparr> in
      if upload_ok e (drive_calls w) name parent_id
      then (Inr (), w'\<lparr>drive_files := drive_files w' @ [(parent_id, name, content)]\<rparr>)
      else (Inl DriveError, w'))"

definition drive_upload_text ::
  "env \<Rightarrow> string \<Rightarrow> json \<Rightarrow> json \<Rightarrow> world \<Rightarrow> (exn + unit) \<times> world" where
  "drive_upload_text e name doc parent_id w =
     drive_upload_bytes e name (UploadJson doc) ''application/json'' parent_id w"

section \<open>The finalize routine\<close>

definition outputs_payload :: "env \<Rightarrow> json \<Rightarrow> json" where
  "outputs_payload e task_id = JDict [(''apiKey'', JStr (API_KEY e)), (''taskId'', task_id)]"

text \<open>\<^verbatim>\<open>if image_url:\<close> and \<^verbatim>\<open>if not image_url:\<close> test an optional string.\<close>

definition truthy_url :: "string option \<Rightarrow> bool" where
  "truthy_url u = (case u of None \<Rightarrow> False | Some s \<Rightarrow> s \<noteq> [])"

text \<open>
  The loop \<^verbatim>\<open>for _ in range(300)\<close>, with the number of rounds left as an argument and the
  variable \<^verbatim>\<open>image_url\<close> passed along. Any exception of the round is swallowed; the round
  then sleeps two seconds. A round that finds a URL leaves the loop without sleeping.
\<close>

fun poll_loop :: "env \<Rightarrow> json \<Rightarrow> nat \<Rightarrow> string option \<Rightarrow> world \<Rightarrow> string option \<times> world" where
  "poll_loop e task_id 0 image_url w = (image_url, w)"
| "poll_loop e task_id (Suc n) image_url w =
     (case rh_post_json e (RH_OUTPUTS e) (outputs_payload e task_id) w of
        (Inl ex, w1) \<Rightarrow> poll_loop e task_id n image_url (sleep 2 w1)
      | (Inr out, w1) \<Rightarrow>
          (case py_get_default out ''data'' out of
             Inl ex \<Rightarrow> poll_loop e task_id n image_url (sleep 2 w1)
           | Inr data \<Rightarrow>
               (let image_url' = find_first_http_url data in
                if truthy_url image_url' then (image_url', w1)
                else poll_loop e task_id n image_url' (sleep 2 w1))))"

text \<open>The download: \<^verbatim>\<open>client.get(image_url)\<close> and \<^verbatim>\<open>r.raise_for_status()\<close>, outside any \<^verbatim>\<open>try\<close>.\<close>

definition download :: "env \<Rightarrow> string \<Rightarrow> world \<Rightarrow> (exn + bytes) \<times> world" where
  "download e image_url w =
     (let w' = w\<lparr>downloads := downloads w @ [image_url]\<rparr> in
      case get_reply e (length (downloads w)) image_url of
        None \<Rightarrow> (Inl DownloadError, w')
      | Some content \<Rightarrow> (Inr content, w'))"

text \<open>
  The first \<^verbatim>\<open>try\<close> block after the download: any exception in it is printed and dropped, and
  \<^verbatim>\<open>meta\<close> gets \<^verbatim>\<open>driveOutputUploadedAt\<close> only when the upload went through.
\<close>

definition mirror_output :: "env \<Rightarrow> bytes \<Rightarrow> json \<Rightarrow> json \<Rightarrow> world \<Rightarrow> json \<times> world" where
  "mirror_output e img_bytes drive_folder_id meta w =
     (case get_drive e w of
        (Inl ex, w1) \<Rightarrow> (meta, w1)
      | (Inr drive, w1) \<Rightarrow>
          (case drive_upload_bytes e ''output.png'' (UploadBytes img_bytes) ''image/png''
                  drive_folder_id w1 of
             (Inl ex, w2) \<Rightarrow> (meta, w2)
           | (Inr u, w2) \<Rightarrow>
               (case now e w2 of (t, w3) \<Rightarrow>
                  (case set_item meta ''driveOutputUploadedAt'' (JStr t) of
                     Inl ex \<Rightarrow> (meta, w3)
                   | Inr meta' \<Rightarrow> (meta', w3)))))"

text \<open>The last \<^verbatim>\<open>try\<close> block: the updated record goes to Drive, or the failure is printed.\<close>

definition mirror_meta :: "env \<Rightarrow> json \<Rightarrow> json \<Rightarrow> world \<Rightarrow> world" where
  "mirror_meta e drive_folder_id meta w =
     (case get_drive e w of
        (Inl ex, w1) \<Rightarrow> w1
      | (Inr drive, w1) \<Rightarrow> snd (drive_upload_text e ''meta.json'' meta drive_folder_id w1))"

text \<open>The branch \<^verbatim>\<open>if not image_url\<close> after the loop.\<close>

definition finalize_timeout :: "string \<Rightarrow> json \<Rightarrow> world \<Rightarrow> (exn + unit) \<times> world" where
  "finalize_timeout archive_id meta w =
     (case set_item meta ''finalizeError'' (JStr ''Timeout waiting for RunningHub output'') of
        Inl ex \<Rightarrow> (Inl ex, w)
      | Inr meta' \<Rightarrow> write_meta archive_id meta' w)"

text \<open>
  The end of \<^verbatim>\<open>finalize_job\<close>: the record gets \<^verbatim>\<open>outputUrl\<close> and \<^verbatim>\<open>finalizedAt\<close>, is saved
  locally, and is sent to Drive when there is a folder.
\<close>

definition finalize_record ::
  "env \<Rightarrow> string \<Rightarrow> json \<Rightarrow> json \<Rightarrow> string \<Rightarrow> world \<Rightarrow> (exn + unit) \<times> world" where
  "finalize_record e archive_id drive_folder_id meta image_url w =
     (case set_item meta ''outputUrl'' (JStr image_url) of
        Inl ex \<Rightarrow> (Inl ex, w)
      | Inr meta2 \<Rightarrow>
          (case now e w of (t, w1) \<Rightarrow>
             (case set_item meta2 ''finalizedAt'' (JStr t) of
                Inl ex \<Rightarrow> (Inl ex, w1)
              | Inr meta3 \<Rightarrow>
                  (case write_meta archive_id meta3 w1 of
                     (Inl ex, w2) \<Rightarrow> (Inl ex, w2)
                   | (Inr u, w2) \<Rightarrow>
                       if GDRIVE_ENABLED e \<and> truthy drive_folder_id
                       then (Inr (), mirror_meta e drive_folder_id meta3 w2)
                       else (Inr (), w2)))))"

text \<open>What comes before it: the download, the local save and the upload of the output.\<close>

definition finalize_output ::
  "env \<Rightarrow> string \<Rightarrow> json \<Rightarrow> string \<Rightarrow> world \<Rightarrow> (exn + unit) \<times> world" where
  "finalize_output e archive_id meta image_url w =
     (case download e image_url w of
        (Inl ex, w1) \<Rightarrow> (Inl ex, w1)
      | (Inr img_bytes, w1) \<Rightarrow>
          (let w2 = write_output archive_id img_bytes w1 in
           case py_get meta ''driveFolderId'' of
             Inl ex \<Rightarrow> (Inl ex, w2)
           | Inr drive_folder_id \<Rightarrow>
               (case (if GDRIVE_ENABLED e \<and> truthy drive_folder_id
                      then mirror_output e img_bytes drive_folder_id meta w2
                      else (meta, w2)) of
                  (meta1, w3) \<Rightarrow>
                    finalize_record e archive_id drive_folder_id meta1 image_url w3)))"

text \<open>\<^verbatim>\<open>finalize_job\<close>.\<close>

definition finalize_job :: "env \<Rightarrow> json \<Rightarrow> string \<Rightarrow> world \<Rightarrow> (exn + unit) \<times> world" where
  "finalize_job e task_id archive_id w0 =
     (case get_play_dir e archive_id w0 of
        Inl ex \<Rightarrow> (Inl ex, w0)
      | Inr w \<Rightarrow>
          (case read_meta archive_id w of
             Inl ex \<Rightarrow> (Inl ex, w)
           | Inr meta \<Rightarrow>
               if output_png (entry_of w archive_id) \<noteq> None then (Inr (), w)
               else
                 (case poll_loop e task_id 300 None w of
                    (image_url, w1) \<Rightarrow>
                      if \<not> truthy_url image_url then finalize_timeout archive_id meta w1
                      else
                        (case image_url of
                           None \<Rightarrow> finalize_timeout archive_id meta w1
                         | Some u \<Rightarrow> finalize_output e archive_id meta u w1))))"

section \<open>The request handlers\<close>

text \<open>\<^verbatim>\<open>str(n)\<close> of an integer: its decimal digits, with a minus sign when negative.\<close>

definition digit_char :: "nat \<Rightarrow> char" where
  "digit_char d = ''0123456789'' ! d"

fun str_nat :: "nat \<Rightarrow> string" where
  "str_nat n = (if n < 10 then [digit_char n] else str_nat (n div 10) @ [digit_char (n mod 10)])"

declare str_nat.simps [simp del]

definition str_int :: "int \<Rightarrow> string" where
  "str_int i = (if i < 0 then ''-'' @ str_nat (nat (- i)) else str_nat (nat i))"

text \<open>The table of \<^verbatim>\<open>api_run\<close> and the lookup \<^verbatim>\<open>TEMPLATE_TO_INT.get(templateId, 1)\<close>.\<close>

definition TEMPLATE_TO_INT :: "(string \<times> int) list" where
  "TEMPLATE_TO_INT =
     [(''fai_chun_01'', 1), (''fai_chun_02'', 2), (''fai_chun_03'', 3), (''fai_chun_04'', 4)]"

definition switch_value_of :: "string \<Rightarrow> int" where
  "switch_value_of templateId =
     (case map_of TEMPLATE_TO_INT templateId of None \<Rightarrow> 1 | Some n \<Rightarrow> n)"

definition node_info_list :: "string \<Rightarrow> int \<Rightarrow> int \<Rightarrow> json" where
  "node_info_list img_b64 switch_value seed =
     JList
      [JDict [(''nodeId'', JStr ''627''), (''fieldName'', JStr ''data''),
              (''fieldValue'', JStr img_b64)],
       JDict [(''nodeId'', JStr ''582''), (''fieldName'', JStr ''value''),
              (''fieldValue'', JStr (str_int switch_value))],
       JDict [(''nodeId'', JStr ''471''), (''fieldName'', JStr ''noise_seed''),
              (''fieldValue'', JStr (str_int seed))]]"

definition create_payload :: "env \<Rightarrow> json \<Rightarrow> json" where
  "create_payload e nodes =
     JDict [(''apiKey'', JStr (API_KEY e)), (''workflowId'', JStr (WORKFLOW_ID e)),
            (''nodeInfoList'', nodes)]"

text \<open>\<^verbatim>\<open>make_archive_id\<close> reads the clock and a fresh UUID.\<close>

definition make_archive_id :: "env \<Rightarrow> world \<Rightarrow> string \<times> world" where
  "make_archive_id e w = (archive_id_at e (clock w), w\<lparr>clock := Suc (clock w)\<rparr>)"

text \<open>\<^verbatim>\<open>random.randint(100_000_000, 999_999_999)\<close>.\<close>

definition randint_seed :: "env \<Rightarrow> world \<Rightarrow> int \<times> world" where
  "randint_seed e w =
     (100000000 + random_seed e (clock w) mod 900000000, w\<lparr>clock := Suc (clock w)\<rparr>)"

text \<open>
  The first \<^verbatim>\<open>try\<close> block of \<^verbatim>\<open>api_run\<close>: the folder id survives only when the client, the
  folder creation and the upload of the input all went through.
\<close>

definition mirror_input :: "env \<Rightarrow> string \<Rightarrow> bytes \<Rightarrow> world \<Rightarrow> json \<times> world" where
  "mirror_input e archive_id img_bytes w =
     (case get_drive e w of
        (Inl ex, w1) \<Rightarrow> (JNull, w1)
      | (Inr drive, w1) \<Rightarrow>
          (case drive_create_folder e archive_id (GDRIVE_ROOT_FOLDER_ID e) w1 of
             (Inl ex, w2) \<Rightarrow> (JNull, w2)
           | (Inr folder_id, w2) \<Rightarrow>
               (case drive_upload_bytes e ''input.jpg'' (UploadBytes img_bytes) ''image/jpeg''
                       (JStr folder_id) w2 of
                  (Inl ex, w3) \<Rightarrow> (JNull, w3)
                | (Inr u, w3) \<Rightarrow> (JStr folder_id, w3))))"

text \<open>
  What a handler answers: a JSON body with status 200, the two error bodies with status 500
  (the missing configuration, or \<^verbatim>\<open>str(e)\<close> of a caught exception), the 404 of the download
  handler, and a file.
\<close>

datatype response =
    Json200 json
  | EnvMissing500
  | Error500 exn
  | NotFound404
  | FileResponse bytes string

definition run_meta :: "string \<Rightarrow> json \<Rightarrow> string \<Rightarrow> int \<Rightarrow> string \<Rightarrow> json \<Rightarrow> json" where
  "run_meta archive_id task_id templateId seed created drive_folder_id =
     JDict [(''archiveId'', JStr archive_id), (''taskId'', task_id),
            (''templateId'', JStr templateId), (''seed'', JInt seed),
            (''createdAt'', JStr created), (''driveFolderId'', drive_folder_id)]"

text \<open>
  \<^verbatim>\<open>api_run\<close> up to the call of RunningHub: the archive id, the entry with the input in it,
  the seed and the Drive folder. The directory may be refused; the Drive block catches what
  it raises.
\<close>

definition run_prepare ::
  "env \<Rightarrow> bytes \<Rightarrow> int option \<Rightarrow> world \<Rightarrow> (exn + string \<times> int \<times> json) \<times> world" where
  "run_prepare e photo seed w =
     (case make_archive_id e w of (archive_id, w1) \<Rightarrow>
        (case get_play_dir e archive_id w1 of
           Inl ex \<Rightarrow> (Inl ex, w1)
         | Inr wd \<Rightarrow>
             (let w2 = write_input archive_id photo wd in
              case (case seed of None \<Rightarrow> randint_seed e w2 | Some s \<Rightarrow> (s, w2)) of
                (seed', w3) \<Rightarrow>
                  (case (if GDRIVE_ENABLED e then mirror_input e archive_id photo w3
                         else (JNull, w3)) of
                     (drive_folder_id, w4) \<Rightarrow> (Inr (archive_id, seed', drive_folder_id), w4)))))"

text \<open>
  \<^verbatim>\<open>api_run\<close> once it has a task id: the record is written (which raises when UTF-8 cannot
  encode it, and the \<^verbatim>\<open>except\<close> of \<^verbatim>\<open>api_run\<close> then answers 500), mirrored when there is a
  folder, the background task is handed over (recorded, not run), and the answer is built.
\<close>

definition run_record ::
  "env \<Rightarrow> string \<Rightarrow> json \<Rightarrow> string \<Rightarrow> int \<Rightarrow> json \<Rightarrow> world \<Rightarrow> response \<times> world" where
  "run_record e archive_id task_id templateId seed drive_folder_id w =
     (case now e w of (created, w1) \<Rightarrow>
        (let meta = run_meta archive_id task_id templateId seed created drive_folder_id in
         case write_meta archive_id meta w1 of
           (Inl ex, w2) \<Rightarrow> (Error500 ex, w2)
         | (Inr u, w2) \<Rightarrow>
             (let w3 = (if GDRIVE_ENABLED e \<and> truthy drive_folder_id
                        then mirror_meta e drive_folder_id meta w2 else w2);
                  w4 = w3\<lparr>background := background w3 @ [(task_id, archive_id)]\<rparr>
              in (Json200 (JDict [(''taskId'', task_id), (''archiveId'', JStr archive_id)]),
                  w4))))"

text \<open>
  \<^verbatim>\<open>api_run\<close>. Every exception inside its \<^verbatim>\<open>try\<close> becomes the 500 answer; what was written
  before stays written.
\<close>

definition api_run :: "env \<Rightarrow> bytes \<Rightarrow> string \<Rightarrow> int option \<Rightarrow> world \<Rightarrow> response \<times> world" where
  "api_run e photo templateId seed w =
     (if API_KEY e = [] \<or> WORKFLOW_ID e = [] then (EnvMissing500, w)
      else
        (case run_prepare e photo seed w of
           (Inl ex, w4) \<Rightarrow> (Error500 ex, w4)
         | (Inr (archive_id, seed', drive_folder_id), w4) \<Rightarrow>
             (let switch_value = switch_value_of templateId in
              case rh_post_json e (RH_CREATE e)
                     (create_payload e (node_info_list (b64encode e photo) switch_value seed'))
                     w4 of
                (Inl ex, w5) \<Rightarrow> (Error500 ex, w5)
              | (Inr run_resp, w5) \<Rightarrow>
                  (case extract_task_id run_resp of
                     Inl ex \<Rightarrow> (Error500 ex, w5)
                   | Inr task_id \<Rightarrow>
                       if \<not> truthy task_id
                       then (Error500 (RuntimeError ''Missing taskId from run response''), w5)
                       else run_record e archive_id task_id templateId seed' drive_folder_id
                              w5))))"

text \<open>
  \<^verbatim>\<open>api_finalize\<close> awaits \<^verbatim>\<open>finalize_job\<close> with nothing around it: what \<^verbatim>\<open>finalize_job\<close> raises
  leaves the handler.
\<close>

definition api_finalize :: "env \<Rightarrow> string \<Rightarrow> string \<Rightarrow> world \<Rightarrow> (exn + response) \<times> world" where
  "api_finalize e taskId archiveId w =
     (case finalize_job e (JStr taskId) archiveId w of
        (Inl ex, w1) \<Rightarrow> (Inl ex, w1)
      | (Inr u, w1) \<Rightarrow> (Inr (Json200 (JDict [(''ok'', JBool True)])), w1))"

text \<open>\<^verbatim>\<open>api_download\<close>.\<close>

definition api_download :: "env \<Rightarrow> string \<Rightarrow> string \<Rightarrow> world \<Rightarrow> (exn + response) \<times> world" where
  "api_download e taskId archiveId w0 =
     (case get_play_dir e archiveId w0 of
        Inl ex \<Rightarrow> (Inl ex, w0)
      | Inr w \<Rightarrow>
          (case (if output_png (entry_of w archiveId) = None
                 then finalize_job e (JStr taskId) archiveId w else (Inr (), w)) of
             (Inl ex, w1) \<Rightarrow> (Inl ex, w1)
           | (Inr u, w1) \<Rightarrow>
               (case output_png (entry_of w1 archiveId) of
                  None \<Rightarrow> (Inr NotFound404, w1)
                | Some b \<Rightarrow>
                    (Inr (FileResponse b (''AI_FaiChun_'' @ archiveId @ ''.png'')), w1))))"

subsection \<open>The traversal order, stated on its own\<close>

text \<open>
  The dictionaries of a value in depth-first order: a dictionary comes before the
  dictionaries nested in its values, and those come in the order of the values; the elements
  of a list come in list order.
\<close>

function dfs_dicts :: "json \<Rightarrow> dict list" where
  "dfs_dicts (JList xs) = concat (map dfs_dicts xs)"
| "dfs_dicts (JDict x) = x # concat (map dfs_dicts (dict_values x))"
| "dfs_dicts JNull = []"
| "dfs_dicts (JBool b) = []"
| "dfs_dicts (JInt i) = []"
| "dfs_dicts (JFloat f) = []"
| "dfs_dicts (JStr s) = []"
  by pat_completeness auto
termination
  apply (relation "measure size")
    apply (auto simp: dict_values_def)
  subgoal for xs x
    by (induction xs) auto
  subgoal for x k v
    by (induction x) auto
  done

text \<open>The string under key \<open>k\<close> of \<open>d\<close>, when it is a string that starts with \<^verbatim>\<open>http\<close>.\<close>

definition key_match :: "dict \<Rightarrow> string \<Rightarrow> string option" where
  "key_match d k =
     (case map_of d k of
        Some (JStr v) \<Rightarrow> if startswith v ''http'' then Some v else None
      | _ \<Rightarrow> None)"

definition found_urls :: "json \<Rightarrow> string list" where
  "found_urls obj =
     concat (map (\<lambda>d. List.map_filter (key_match d) candidate_keys) (dfs_dicts obj))"

section \<open>Notions the claims are stated with\<close>

text \<open>The seed \<^verbatim>\<open>api_run\<close> ends up with: the one given, or the one drawn after the archive id.\<close>

definition run_seed :: "env \<Rightarrow> int option \<Rightarrow> world \<Rightarrow> int" where
  "run_seed e seed w =
     (case seed of
        None \<Rightarrow> 100000000 + random_seed e (Suc (clock w)) mod 900000000
      | Some s \<Rightarrow> s)"

text \<open>
  The places the specification lists for a task identifier, in its priority order: the keys
  \<^verbatim>\<open>taskId\<close>, \<^verbatim>\<open>task_id\<close>, \<^verbatim>\<open>id\<close> of a \<^verbatim>\<open>data\<close> object, a \<^verbatim>\<open>data\<close> string, the top-level keys
  \<^verbatim>\<open>taskId\<close> and \<^verbatim>\<open>task_id\<close>.
\<close>

definition recognized_ids :: "dict \<Rightarrow> json list" where
  "recognized_ids r =
     (case dict_get r ''data'' of
        JDict d \<Rightarrow> [dict_get d ''taskId'', dict_get d ''task_id'', dict_get d ''id'']
      | JStr s \<Rightarrow> [JStr s]
      | _ \<Rightarrow> [])
     @ [dict_get r ''taskId'', dict_get r ''task_id'']"

text \<open>
  The places \<^verbatim>\<open>extract_task_id\<close> looks at: the top-level keys only when \<^verbatim>\<open>data\<close> is neither an
  object nor a string.
\<close>

definition consulted_ids :: "dict \<Rightarrow> json list" where
  "consulted_ids r =
     (case dict_get r ''data'' of
        JDict d \<Rightarrow> [dict_get d ''taskId'', dict_get d ''task_id'', dict_get d ''id'']
      | JStr s \<Rightarrow> [JStr s]
      | _ \<Rightarrow> [dict_get r ''taskId'', dict_get r ''task_id''])"

text \<open>
  The URL the \<open>i\<close>-th request to RunningHub yields when it is a poll for \<open>task_id\<close>: none when
  the request raises, when the status is 400 or more, when the reply is not a dictionary, or
  when the part searched (the \<^verbatim>\<open>data\<close> field when the reply has one, the reply otherwise)
  holds no match.
\<close>

definition poll_url :: "env \<Rightarrow> json \<Rightarrow> nat \<Rightarrow> string option" where
  "poll_url e task_id i =
     (case rh_reply e i (RH_OUTPUTS e) (outputs_payload e task_id) of
        NoReply \<Rightarrow> None
      | Reply st body \<Rightarrow>
          if st \<ge> 400 then None
          else (case py_get_default (body_json body) ''data'' (body_json body) of
                  Inl ex \<Rightarrow> None
                | Inr data \<Rightarrow> find_first_http_url data))"

text \<open>The poll request of a finalize run, and the world after \<open>k\<close> polls with \<open>s\<close> sleeps.\<close>

definition poll_request :: "env \<Rightarrow> json \<Rightarrow> string \<times> json" where
  "poll_request e task_id = (RH_OUTPUTS e, outputs_payload e task_id)"

definition polled :: "env \<Rightarrow> json \<Rightarrow> nat \<Rightarrow> nat \<Rightarrow> world \<Rightarrow> world" where
  "polled e task_id k s w =
     w\<lparr>rh_calls := rh_calls w @ replicate k (poll_request e task_id), slept := slept w + 2 * s\<rparr>"

text \<open>
  \<^verbatim>\<open>meta.json\<close> of an entry is absent or holds a dictionary: so it is in every entry this
  program wrote. \<open>meta_dict\<close> is then the dictionary \<^verbatim>\<open>finalize_job\<close> starts from.
\<close>

definition meta_readable :: "world \<Rightarrow> string \<Rightarrow> bool" where
  "meta_readable w archive_id =
     (case meta_json (entry_of w archive_id) of
        None \<Rightarrow> True
      | Some (JsonText (JDict m)) \<Rightarrow> True
      | _ \<Rightarrow> False)"

definition meta_dict :: "world \<Rightarrow> string \<Rightarrow> dict" where
  "meta_dict w archive_id =
     (case meta_json (entry_of w archive_id) of
        Some (JsonText (JDict m)) \<Rightarrow> m
      | _ \<Rightarrow> [])"

definition has_key :: "dict \<Rightarrow> string \<Rightarrow> bool" where
  "has_key m k = (map_of m k \<noteq> None)"

text \<open>
  The record of an entry can be written back: UTF-8 encodes all its keys and strings. So it
  is for every record this program wrote, since it wrote them as UTF-8.
\<close>

definition meta_encodable :: "world \<Rightarrow> string \<Rightarrow> bool" where
  "meta_encodable w archive_id = json_encodable (JDict (meta_dict w archive_id))"

text \<open>
  The texts the environment generates are ones UTF-8 encodes, as those of
  \<^verbatim>\<open>datetime.isoformat\<close>, \<^verbatim>\<open>strftime\<close> and \<^verbatim>\<open>uuid4().hex\<close> are, and so are the folder ids
  Drive hands out.
\<close>

definition generated_texts_encodable :: "env \<Rightarrow> bool" where
  "generated_texts_encodable e =
     (\<forall>n. str_encodable (now_iso e n) \<and> str_encodable (archive_id_at e n) \<and>
          (\<forall>name parent f. create_folder_reply e n name parent = Some f \<longrightarrow> str_encodable f))"

text \<open>
  The values at the places the specification lists, for any reply to the submission: none
  when there is no reply or its body is not a dictionary; a body that does not parse is the
  dictionary \<^verbatim>\<open>{"raw": text}\<close>.
\<close>

definition reply_ids :: "http_reply \<Rightarrow> json list" where
  "reply_ids reply =
     (case reply of
        NoReply \<Rightarrow> []
      | Reply st body \<Rightarrow> (case body_json body of JDict r \<Rightarrow> recognized_ids r | _ \<Rightarrow> []))"

subsection \<open>Concrete worlds and environments\<close>

definition world0 :: world where
  "world0 = \<lparr>archive = (\<lambda>a. None), rh_calls = [], downloads = [], slept = 0,
              drive_calls = 0, drive_files = [], clock = 0, background = []\<rparr>"

text \<open>
  An environment with a key and a workflow id, Drive switched on or off, the given replies
  of RunningHub (by request number) and of the download, a Drive whose client loads but
  whose every folder creation and upload fails, and an operating system that makes every
  directory.
\<close>

definition test_env :: "bool \<Rightarrow> (nat \<Rightarrow> http_reply) \<Rightarrow> bytes option \<Rightarrow> env" where
  "test_env drive replies content =
     \<lparr>API_KEY = ''key'', WORKFLOW_ID = ''wf'', BASE = ''https://www.runninghub.ai'',
      GDRIVE_ENABLED = drive, GDRIVE_ROOT_FOLDER_ID = ''root'',
      rh_reply = (\<lambda>n url payload. replies n),
      get_reply = (\<lambda>n url. content),
      get_drive_ok = (\<lambda>n. True),
      create_folder_reply = (\<lambda>n name parent. None),
      upload_ok = (\<lambda>n name parent. False),
      now_iso = (\<lambda>n. ''2026-02-17T10:00:00''),
      archive_id_at = (\<lambda>n. ''2026-02-17_100000_0a1b2c3d''),
      random_seed = (\<lambda>n. 0),
      b64encode = (\<lambda>b. []),
      mkdir_ok = (\<lambda>a. True)\<rparr>"

definition url_reply :: http_reply where
  "url_reply = Reply 200 (Json (JDict [(''fileUrl'', JStr ''http://x/out.png'')]))"

definition empty_reply :: http_reply where
  "empty_reply = Reply 200 (Json (JDict []))"

text \<open>
  A submission that RunningHub accepts, and one it answers with an identifier at the top
  level beside an empty \<^verbatim>\<open>data\<close> object.
\<close>

definition created_reply :: http_reply where
  "created_reply = Reply 200 (Json (JDict [(''data'', JDict [(''taskId'', JStr ''task-1'')])]))"

definition submit_env :: env where
  "submit_env = test_env False (\<lambda>n. created_reply) None"

definition top_level_id_body :: dict where
  "top_level_id_body = [(''data'', JDict []), (''taskId'', JStr ''abc'')]"

definition top_level_id_env :: env where
  "top_level_id_env = test_env False (\<lambda>n. Reply 200 (Json (JDict top_level_id_body))) None"


text \<open>
  An entry \<^verbatim>\<open>job\<close> as \<^verbatim>\<open>api_run\<close> leaves it with a Drive folder (input and record, no output),
  and the same entry once an output has been written.
\<close>

definition submitted_entry :: entry where
  "submitted_entry =
     \<lparr>input_jpg = Some [255, 216], output_png = None,
      meta_json = Some (JsonText (JDict [(''taskId'', JStr ''t''),
                                         (''driveFolderId'', JStr ''folder'')]))\<rparr>"

definition submitted_world :: world where
  "submitted_world = world0\<lparr>archive := (\<lambda>a. if a = ''job'' then Some submitted_entry else None)\<rparr>"

definition finalized_world :: world where
  "finalized_world =
     world0\<lparr>archive := (\<lambda>a. if a = ''job''
                             then Some (submitted_entry\<lparr>output_png := Some [137, 80]\<rparr>)
                             else None)\<rparr>"

text \<open>
  RunningHub answering: with the URL at once; with two empty replies and then the URL; with
  two empty replies and then the URL beside an empty \<^verbatim>\<open>data\<close> object; with nothing for 300
  requests and the URL from then on; never with a URL.
\<close>

definition hidden_url_body :: json where
  "hidden_url_body = JDict [(''data'', JDict []), (''fileUrl'', JStr ''http://x/out.png'')]"

definition third_replies :: "nat \<Rightarrow> http_reply" where
  "third_replies n = (if n < 2 then empty_reply else url_reply)"

definition hidden_replies :: "nat \<Rightarrow> http_reply" where
  "hidden_replies n = (if n < 2 then empty_reply else Reply 200 (Json hidden_url_body))"

definition late_replies :: "nat \<Rightarrow> http_reply" where
  "late_replies n = (if n < 300 then NoReply else url_reply)"

definition ready_env :: env where
  "ready_env = test_env True (\<lambda>n. url_reply) (Some [137, 80])"

definition third_env :: env where
  "third_env = test_env True third_replies (Some [137, 80])"

definition hidden_env :: env where
  "hidden_env = test_env False hidden_replies (Some [137, 80])"

definition late_env :: env where
  "late_env = test_env False late_replies (Some [137, 80])"

definition silent_env :: env where
  "silent_env = test_env False (\<lambda>n. empty_reply) None"

definition broken_download_env :: env where
  "broken_download_env = test_env False (\<lambda>n. url_reply) None"
lemma key_match_Some_iff:
  "key_match d k = Some v \<longleftrightarrow> dict_get d k = JStr v \<and> startswith v ''http''"
  by (auto simp: key_match_def dict_get_def split: option.splits json.splits)

lemma key_match_None_iff:
  "key_match d k = None \<longleftrightarrow> (\<forall>v. dict_get d k = JStr v \<longrightarrow> \<not> startswith v ''http'')"
  by (auto simp: key_match_def dict_get_def split: option.splits json.splits)

lemma check_key_match:
  "check_key x k found = (case key_match x k of None \<Rightarrow> found | Some v \<Rightarrow> found @ [v])"
  by (simp add: key_match_def dict_get_def split: option.splits json.splits)

lemma fold_check_key:
  "fold (check_key x) ks found = found @ List.map_filter (key_match x) ks"
  by (induction ks arbitrary: found)
     (simp_all add: check_key_match List.map_filter_simps split: option.splits
        del: check_key.simps)

lemma fold_walk_append:
  assumes "\<And>x f. x \<in> set xs \<Longrightarrow> walk x f = f @ g x"
  shows "fold walk xs found = found @ concat (map g xs)"
  using assms by (induction xs arbitrary: found) simp_all

lemma concat_map_concat:
  "concat (concat (map f xs)) = concat (map (\<lambda>x. concat (f x)) xs)"
  by (induction xs) simp_all

lemma walk_append:
  "walk x found =
     found @ concat (map (\<lambda>d. List.map_filter (key_match d) candidate_keys) (dfs_dicts x))"
proof (induction x found rule: walk.induct)
  case (1 xs found)
  have "fold walk xs found = found @ concat (map (\<lambda>x. concat
          (map (\<lambda>d. List.map_filter (key_match d) candidate_keys) (dfs_dicts x))) xs)"
    by (rule fold_walk_append) (rule 1)
  then show ?case
    by (simp add: map_concat concat_map_concat comp_def)
next
  case (2 x found)
  have "fold walk (dict_values x) (fold (check_key x) candidate_keys found)
      = fold (check_key x) candidate_keys found @ concat (map (\<lambda>x. concat
          (map (\<lambda>d. List.map_filter (key_match d) candidate_keys) (dfs_dicts x)))
          (dict_values x))"
    by (rule fold_walk_append) (rule 2)
  then show ?case
    by (simp add: fold_check_key map_concat concat_map_concat comp_def)
qed simp_all

lemma walk_found_urls: "walk obj [] = found_urls obj"
  by (simp add: walk_append found_urls_def)

lemma find_first_http_url_found:
  "find_first_http_url obj = (case found_urls obj of [] \<Rightarrow> None | v # _ \<Rightarrow> Some v)"
  by (cases "found_urls obj") (simp_all add: find_first_http_url_def walk_found_urls)

lemma map_filter_empty:
  "(\<forall>x\<in>set xs. f x = None) \<Longrightarrow> List.map_filter f xs = []"
  by (simp add: List.map_filter_def filter_empty_conv)

lemma map_filter_first:
  "(\<forall>x\<in>set xs. f x = None) \<Longrightarrow> f y = Some v \<Longrightarrow>
     List.map_filter f (xs @ y # ys) = v # List.map_filter f ys"
  by (simp add: List.map_filter_def filter_empty_conv)

lemma map_filter_mem:
  "v \<in> set (List.map_filter f xs) \<Longrightarrow> \<exists>x\<in>set xs. f x = Some v"
  by (auto simp: List.map_filter_def)

lemma concat_map_empty: "\<forall>x\<in>set xs. f x = [] \<Longrightarrow> concat (map f xs) = []"
  by (induction xs) simp_all

lemma found_urls_none:
  assumes "\<forall>d\<in>set (dfs_dicts obj). \<forall>k\<in>set candidate_keys.
             \<forall>v. dict_get d k = JStr v \<longrightarrow> \<not> startswith v ''http''"
  shows "found_urls obj = []"
proof -
  have "\<forall>d\<in>set (dfs_dicts obj). List.map_filter (key_match d) candidate_keys = []"
    using assms by (auto intro!: map_filter_empty simp: key_match_None_iff)
  then show ?thesis
    unfolding found_urls_def by (rule concat_map_empty)
qed

lemma found_urls_first:
  assumes "dfs_dicts obj = before @ d # after"
    and "\<forall>d'\<in>set before. \<forall>k'\<in>set candidate_keys.
           \<forall>v'. dict_get d' k' = JStr v' \<longrightarrow> \<not> startswith v' ''http''"
    and "candidate_keys = higher @ k # lower"
    and "\<forall>k'\<in>set higher. \<forall>v'. dict_get d k' = JStr v' \<longrightarrow> \<not> startswith v' ''http''"
    and "dict_get d k = JStr v" and "startswith v ''http''"
  shows "\<exists>rest. found_urls obj = v # rest"
proof -
  have "\<forall>d'\<in>set before. List.map_filter (key_match d') candidate_keys = []"
    using assms(2) by (auto intro!: map_filter_empty simp: key_match_None_iff)
  then have b: "concat (map (\<lambda>d. List.map_filter (key_match d) candidate_keys) before) = []"
    by (rule concat_map_empty)
  have m: "List.map_filter (key_match d) candidate_keys
             = v # List.map_filter (key_match d) lower"
    unfolding assms(3) using assms(4,5,6)
    by (intro map_filter_first) (auto simp: key_match_None_iff key_match_Some_iff)
  show ?thesis
    unfolding found_urls_def assms(1)
    by (simp only: map_append list.map concat_append concat.simps b m) simp
qed

lemma found_urls_mem:
  "v \<in> set (found_urls obj) \<Longrightarrow>
     \<exists>d\<in>set (dfs_dicts obj). \<exists>k\<in>set candidate_keys.
        dict_get d k = JStr v \<and> startswith v ''http''"
proof -
  assume "v \<in> set (found_urls obj)"
  then obtain d where d: "d \<in> set (dfs_dicts obj)"
    and "v \<in> set (List.map_filter (key_match d) candidate_keys)"
    unfolding found_urls_def by auto
  then obtain k where "k \<in> set candidate_keys" "key_match d k = Some v"
    using map_filter_mem by fastforce
  with d show ?thesis
    unfolding key_match_Some_iff by blast
qed

lemma found_urls_no_dicts: "dfs_dicts x = [] \<Longrightarrow> found_urls x = []"
  by (simp add: found_urls_def)

lemma dfs_dicts_flat:
  "\<forall>v\<in>set vs. \<exists>s. v = JStr s \<Longrightarrow> concat (map dfs_dicts vs) = []"
  by (rule concat_map_empty) auto

lemma find_first_http_url_nonempty:
  "find_first_http_url obj = Some v \<Longrightarrow> startswith v ''http'' \<and> v \<noteq> []"
proof -
  assume "find_first_http_url obj = Some v"
  then have "v \<in> set (found_urls obj)"
    by (auto simp: find_first_http_url_found split: list.splits)
  then have "startswith v ''http''"
    using found_urls_mem by blast
  then show ?thesis
    by (auto simp: startswith_def)
qed

section \<open>The poll loop\<close>

lemma truthy_url_find [simp]:
  "truthy_url (find_first_http_url x) \<longleftrightarrow> find_first_http_url x \<noteq> None"
  by (cases "find_first_http_url x") (auto simp: truthy_url_def dest: find_first_http_url_nonempty)

lemma polled_0 [simp]: "polled e t 0 0 w = w"
  by (simp add: polled_def)

lemma polled_fields [simp]:
  "archive (polled e t k s w) = archive w"
  "downloads (polled e t k s w) = downloads w"
  "drive_calls (polled e t k s w) = drive_calls w"
  "drive_files (polled e t k s w) = drive_files w"
  "clock (polled e t k s w) = clock w"
  "background (polled e t k s w) = background w"
  "rh_calls (polled e t k s w) = rh_calls w @ replicate k (poll_request e t)"
  "slept (polled e t k s w) = slept w + 2 * s"
  by (simp_all add: polled_def)

lemma poll_step:
  "poll_loop e t (Suc n) None w =
     (case poll_url e t (length (rh_calls w)) of
        Some u \<Rightarrow> (Some u, polled e t 1 0 w)
      | None \<Rightarrow> poll_loop e t n None (polled e t 1 1 w))"
  by (auto simp: rh_post_json_def poll_url_def polled_def poll_request_def sleep_def Let_def
      split: http_reply.splits sum.splits option.splits)

lemma polled_polled [simp]:
  "polled e t k s (polled e t k' s' w) = polled e t (k' + k) (s' + s) w"
  by (simp add: polled_def replicate_add)

lemma poll_loop_none:
  "(\<forall>i<n. poll_url e t (length (rh_calls w) + i) = None) \<Longrightarrow>
     poll_loop e t n None w = (None, polled e t n n w)"
proof (induction n arbitrary: w)
  case 0
  then show ?case by simp
next
  case (Suc n)
  have h0: "poll_url e t (length (rh_calls w)) = None"
    using Suc.prems[rule_format, of 0] by simp
  have "\<forall>i<n. poll_url e t (length (rh_calls (polled e t 1 1 w)) + i) = None"
    using Suc.prems by auto
  then have "poll_loop e t n None (polled e t 1 1 w) = (None, polled e t n n (polled e t 1 1 w))"
    by (rule Suc.IH)
  then show ?case
    by (simp only: poll_step h0 option.case polled_polled) simp
qed

lemma poll_loop_hit:
  "k < n \<Longrightarrow> (\<forall>i<k. poll_url e t (length (rh_calls w) + i) = None) \<Longrightarrow>
   poll_url e t (length (rh_calls w) + k) = Some u \<Longrightarrow>
     poll_loop e t n None w = (Some u, polled e t (Suc k) k w)"
proof (induction n arbitrary: w k)
  case 0
  then show ?case by simp
next
  case (Suc n)
  show ?case
  proof (cases k)
    case 0
    with Suc.prems show ?thesis
      by (simp add: poll_step del: poll_loop.simps)
  next
    case (Suc j)
    have h0: "poll_url e t (length (rh_calls w)) = None"
      using Suc.prems(2)[rule_format, of 0] Suc by simp
    have a: "j < n" using Suc.prems(1) Suc by simp
    have b: "\<forall>i<j. poll_url e t (length (rh_calls (polled e t 1 1 w)) + i) = None"
      using Suc.prems(2) Suc by auto
    have c: "poll_url e t (length (rh_calls (polled e t 1 1 w)) + j) = Some u"
      using Suc.prems(3) Suc by simp
    have "poll_loop e t n None (polled e t 1 1 w) = (Some u, polled e t (Suc j) j (polled e t 1 1 w))"
      using Suc.IH[OF a b c] .
    then show ?thesis
      by (simp only: poll_step h0 option.case polled_polled Suc) simp
  qed
qed

lemma poll_loop_cases:
  "(\<exists>k<n. \<exists>u. poll_url e t (length (rh_calls w) + k) = Some u \<and>
       (\<forall>i<k. poll_url e t (length (rh_calls w) + i) = None) \<and>
       poll_loop e t n None w = (Some u, polled e t (Suc k) k w))
   \<or> ((\<forall>i<n. poll_url e t (length (rh_calls w) + i) = None) \<and>
       poll_loop e t n None w = (None, polled e t n n w))"
proof (cases "\<forall>i<n. poll_url e t (length (rh_calls w) + i) = None")
  case True
  then show ?thesis using poll_loop_none by blast
next
  case False
  define P where "P i \<longleftrightarrow> i < n \<and> poll_url e t (length (rh_calls w) + i) \<noteq> None" for i
  from False have "\<exists>i. P i" by (auto simp: P_def)
  then obtain k where k: "P k" and least: "\<forall>i<k. \<not> P i"
    using exists_least_iff[of P] by blast
  from k obtain u where u: "k < n" "poll_url e t (length (rh_calls w) + k) = Some u"
    by (auto simp: P_def)
  have none: "\<forall>i<k. poll_url e t (length (rh_calls w) + i) = None"
    using least u(1) by (auto simp: P_def)
  from poll_loop_hit[OF u(1) none u(2)] u none show ?thesis by blast
qed

section \<open>What the finalize routine does, step by step\<close>

lemma map_of_dict_set: "map_of (dict_set m k v) = (map_of m)(k \<mapsto> v)"
  by (induction m) (auto simp: fun_eq_iff)

lemma dict_get_dict_set:
  "dict_get (dict_set m k v) k' = (if k' = k then v else dict_get m k')"
  by (simp add: dict_get_def map_of_dict_set)

lemma has_key_dict_set: "has_key (dict_set m k v) k' \<longleftrightarrow> k' = k \<or> has_key m k'"
  by (simp add: has_key_def map_of_dict_set)

lemma entry_of_make_dir [simp]: "entry_of (make_dir a w) a' = entry_of w a'"
  by (auto simp: entry_of_def make_dir_def split: option.splits)

lemma make_dir_fields [simp]:
  "rh_calls (make_dir a w) = rh_calls w"
  "downloads (make_dir a w) = downloads w"
  "slept (make_dir a w) = slept w"
  "drive_calls (make_dir a w) = drive_calls w"
  "drive_files (make_dir a w) = drive_files w"
  "clock (make_dir a w) = clock w"
  "background (make_dir a w) = background w"
  by (simp_all add: make_dir_def split: option.splits)

lemma make_dir_existing: "archive w a \<noteq> None \<Longrightarrow> make_dir a w = w"
  by (auto simp: make_dir_def)

lemma get_play_dir_ok: "mkdir_ok e a \<Longrightarrow> get_play_dir e a w = Inr (make_dir a w)"
  by (simp add: get_play_dir_def)

lemma get_play_dir_existing: "archive w a \<noteq> None \<Longrightarrow> get_play_dir e a w = Inr w"
  by (simp add: get_play_dir_def make_dir_existing)

lemma get_play_dir_ready:
  "archive w a \<noteq> None \<or> mkdir_ok e a \<Longrightarrow> get_play_dir e a w = Inr (make_dir a w)"
  by (simp add: get_play_dir_def)

lemma get_play_dir_cases:
  "get_play_dir e a w = Inr (make_dir a w) \<or> get_play_dir e a w = Inl MkdirError"
  by (simp add: get_play_dir_def)

lemma output_present_entry: "output_png (entry_of w a) \<noteq> None \<Longrightarrow> archive w a \<noteq> None"
  by (auto simp: entry_of_def empty_entry_def split: option.splits)

lemma read_meta_make_dir [simp]: "read_meta a (make_dir a' w) = read_meta a w"
  by (simp add: read_meta_def)

lemma entry_of_polled [simp]: "entry_of (polled e t k s w) a = entry_of w a"
  by (simp add: entry_of_def)

lemma entry_of_other_fields [simp]:
  "entry_of (w\<lparr>rh_calls := c\<rparr>) a = entry_of w a"
  "entry_of (w\<lparr>downloads := d\<rparr>) a = entry_of w a"
  "entry_of (w\<lparr>slept := s\<rparr>) a = entry_of w a"
  "entry_of (w\<lparr>drive_calls := n\<rparr>) a = entry_of w a"
  "entry_of (w\<lparr>drive_files := fs\<rparr>) a = entry_of w a"
  "entry_of (w\<lparr>clock := k\<rparr>) a = entry_of w a"
  "entry_of (w\<lparr>background := bg\<rparr>) a = entry_of w a"
  by (simp_all add: entry_of_def)

lemma read_meta_readable:
  "meta_readable w a \<Longrightarrow> read_meta a w = Inr (JDict (meta_dict w a))"
  by (auto simp: meta_readable_def meta_dict_def read_meta_def
      split: option.splits file_text.splits json.splits)

lemma read_meta_parses:
  "meta_json (entry_of w a) \<noteq> Some OtherText \<Longrightarrow> \<exists>j. read_meta a w = Inr j"
  by (auto simp: read_meta_def split: option.splits file_text.splits)

lemma entry_of_store_meta [simp]:
  "entry_of (store_meta a txt w) a' =
     (if a' = a then (entry_of w a)\<lparr>meta_json := Some txt\<rparr> else entry_of w a')"
  by (simp add: store_meta_def entry_of_def)

lemma entry_of_write_output [simp]:
  "entry_of (write_output a b w) a' =
     (if a' = a then (entry_of w a)\<lparr>output_png := Some b\<rparr> else entry_of w a')"
  by (simp add: write_output_def entry_of_def)

lemma store_meta_fields [simp]:
  "rh_calls (store_meta a txt w) = rh_calls w"
  "downloads (store_meta a txt w) = downloads w"
  "slept (store_meta a txt w) = slept w"
  "drive_calls (store_meta a txt w) = drive_calls w"
  "drive_files (store_meta a txt w) = drive_files w"
  "clock (store_meta a txt w) = clock w"
  "background (store_meta a txt w) = background w"
  by (simp_all add: store_meta_def)

lemma write_meta_encodable:
  "json_encodable j \<Longrightarrow> write_meta a j w = (Inr (), store_meta a (JsonText j) w)"
  by (simp add: write_meta_def)

lemma write_meta_unencodable:
  "\<not> json_encodable j \<Longrightarrow> write_meta a j w = (Inl UnicodeEncodeError, store_meta a OtherText w)"
  by (simp add: write_meta_def)

lemma write_meta_fields [simp]:
  "rh_calls (snd (write_meta a j w)) = rh_calls w"
  "downloads (snd (write_meta a j w)) = downloads w"
  "slept (snd (write_meta a j w)) = slept w"
  "drive_calls (snd (write_meta a j w)) = drive_calls w"
  "drive_files (snd (write_meta a j w)) = drive_files w"
  "clock (snd (write_meta a j w)) = clock w"
  "background (snd (write_meta a j w)) = background w"
  by (simp_all add: write_meta_def)

text \<open>Encodable records stay encodable when an encodable field is set.\<close>

lemma dict_set_encodable:
  "json_encodable (JDict m) \<Longrightarrow> str_encodable k \<Longrightarrow> json_encodable v \<Longrightarrow>
     json_encodable (JDict (dict_set m k v))"
  by (induction m) auto

lemma ascii_keys_encodable [simp]:
  "str_encodable ''finalizeError''" "str_encodable ''outputUrl''" "str_encodable ''finalizedAt''"
  "str_encodable ''driveOutputUploadedAt''"
  "str_encodable ''Timeout waiting for RunningHub output''"
  by (simp_all add: str_encodable_def)

lemma write_output_fields [simp]:
  "rh_calls (write_output a b w) = rh_calls w"
  "downloads (write_output a b w) = downloads w"
  "slept (write_output a b w) = slept w"
  "drive_calls (write_output a b w) = drive_calls w"
  "drive_files (write_output a b w) = drive_files w"
  "clock (write_output a b w) = clock w"
  "background (write_output a b w) = background w"
  by (simp_all add: write_output_def)

text \<open>The Drive blocks leave everything but the Drive and the clock alone.\<close>

lemma mirror_output_frame:
  "entry_of (snd (mirror_output e b f meta w)) a = entry_of w a \<and>
   rh_calls (snd (mirror_output e b f meta w)) = rh_calls w \<and>
   downloads (snd (mirror_output e b f meta w)) = downloads w \<and>
   slept (snd (mirror_output e b f meta w)) = slept w \<and>
   background (snd (mirror_output e b f meta w)) = background w"
  by (simp add: mirror_output_def get_drive_def drive_upload_bytes_def now_def entry_of_def
      Let_def split: sum.splits)

lemma mirror_meta_frame:
  "entry_of (mirror_meta e f meta w) a = entry_of w a \<and>
   rh_calls (mirror_meta e f meta w) = rh_calls w \<and>
   downloads (mirror_meta e f meta w) = downloads w \<and>
   slept (mirror_meta e f meta w) = slept w \<and>
   clock (mirror_meta e f meta w) = clock w \<and>
   background (mirror_meta e f meta w) = background w"
  by (simp add: mirror_meta_def get_drive_def drive_upload_text_def drive_upload_bytes_def
      entry_of_def Let_def)

lemma mirror_output_meta:
  "fst (mirror_output e b f (JDict m) w) = JDict m \<and>
     clock (snd (mirror_output e b f (JDict m) w)) = clock w \<and>
     drive_files (snd (mirror_output e b f (JDict m) w)) = drive_files w
   \<or> (\<exists>ts. fst (mirror_output e b f (JDict m) w)
              = JDict (dict_set m ''driveOutputUploadedAt'' (JStr ts)))"
  by (auto simp: mirror_output_def get_drive_def drive_upload_bytes_def now_def set_item_def Let_def)

lemma mirror_output_uploads_fail:
  "(\<forall>n name p. \<not> upload_ok e n name p) \<Longrightarrow>
     fst (mirror_output e b f meta w) = meta \<and>
     clock (snd (mirror_output e b f meta w)) = clock w \<and>
     drive_files (snd (mirror_output e b f meta w)) = drive_files w"
  by (simp add: mirror_output_def get_drive_def drive_upload_bytes_def Let_def)

lemma mirror_meta_uploads_fail:
  "(\<forall>n name p. \<not> upload_ok e n name p) \<Longrightarrow>
     drive_files (mirror_meta e f meta w) = drive_files w"
  by (simp add: mirror_meta_def get_drive_def drive_upload_text_def drive_upload_bytes_def Let_def)

lemma finalize_record_dict:
  assumes "json_encodable (JDict m1)" and "str_encodable u"
    and "str_encodable (now_iso e (clock w))"
  shows "\<exists>W. finalize_record e a f (JDict m1) u w = (Inr (), W) \<and>
     entry_of W a = (entry_of w a)\<lparr>meta_json := Some (JsonText (JDict
        (dict_set (dict_set m1 ''outputUrl'' (JStr u)) ''finalizedAt''
           (JStr (now_iso e (clock w))))))\<rparr> \<and>
     rh_calls W = rh_calls w \<and> downloads W = downloads w \<and> slept W = slept w \<and>
     ((\<forall>n name p. \<not> upload_ok e n name p) \<longrightarrow> drive_files W = drive_files w)"
proof -
  define m3 where "m3 = dict_set (dict_set m1 ''outputUrl'' (JStr u)) ''finalizedAt''
                          (JStr (now_iso e (clock w)))"
  define w2 where "w2 = store_meta a (JsonText (JDict m3)) (w\<lparr>clock := Suc (clock w)\<rparr>)"
  define W where "W = (if GDRIVE_ENABLED e \<and> truthy f then mirror_meta e f (JDict m3) w2 else w2)"
  have enc: "json_encodable (JDict m3)"
    unfolding m3_def using assms by (intro dict_set_encodable) simp_all
  have wm: "write_meta a (JDict m3) (w\<lparr>clock := Suc (clock w)\<rparr>) = (Inr (), w2)"
    unfolding w2_def using enc by (rule write_meta_encodable)
  have w2: "entry_of w2 a = (entry_of w a)\<lparr>meta_json := Some (JsonText (JDict m3))\<rparr>"
    "rh_calls w2 = rh_calls w" "downloads w2 = downloads w" "slept w2 = slept w"
    "drive_files w2 = drive_files w"
    by (simp_all add: w2_def)
  have W: "entry_of W a = entry_of w2 a" "rh_calls W = rh_calls w2"
    "downloads W = downloads w2" "slept W = slept w2"
    using mirror_meta_frame[of e f "JDict m3" w2 a] by (auto simp: W_def)
  have Wd: "(\<forall>n name p. \<not> upload_ok e n name p) \<longrightarrow> drive_files W = drive_files w2"
    using mirror_meta_uploads_fail[of e f "JDict m3" w2] by (auto simp: W_def)
  have "finalize_record e a f (JDict m1) u w = (Inr (), W)"
    using wm by (simp add: finalize_record_def set_item_def now_def Let_def m3_def W_def)
  with W Wd w2 show ?thesis
    unfolding m3_def by (intro exI[of _ W]) simp
qed

text \<open>A record that cannot be encoded: the write raises and leaves the file empty.\<close>

lemma finalize_record_unencodable:
  assumes "\<not> str_encodable u"
  shows "\<exists>W. finalize_record e a f (JDict m1) u w = (Inl UnicodeEncodeError, W) \<and>
     entry_of W a = (entry_of w a)\<lparr>meta_json := Some OtherText\<rparr>"
proof -
  define m3 where "m3 = dict_set (dict_set m1 ''outputUrl'' (JStr u)) ''finalizedAt''
                          (JStr (now_iso e (clock w)))"
  have "map_of (dict_set m1 ''outputUrl'' (JStr u)) ''outputUrl'' = Some (JStr u)"
    by (simp add: map_of_dict_set)
  then have "map_of m3 ''outputUrl'' = Some (JStr u)"
    by (simp add: m3_def map_of_dict_set)
  then have "(''outputUrl'', JStr u) \<in> set m3"
    by (rule map_of_SomeD)
  then have "\<not> json_encodable (JDict m3)"
    using assms by (auto simp: list_all_iff intro!: bexI[of _ "(''outputUrl'', JStr u)"])
  then have "write_meta a (JDict m3) (w\<lparr>clock := Suc (clock w)\<rparr>)
               = (Inl UnicodeEncodeError, store_meta a OtherText (w\<lparr>clock := Suc (clock w)\<rparr>))"
    by (rule write_meta_unencodable)
  then have "finalize_record e a f (JDict m1) u w
               = (Inl UnicodeEncodeError, store_meta a OtherText (w\<lparr>clock := Suc (clock w)\<rparr>))"
    by (simp add: finalize_record_def set_item_def now_def Let_def m3_def)
  then show ?thesis by simp
qed

lemma finalize_output_download_fails:
  "get_reply e (length (downloads w)) u = None \<Longrightarrow>
     finalize_output e a meta u w = (Inl DownloadError, w\<lparr>downloads := downloads w @ [u]\<rparr>)"
  by (simp add: finalize_output_def download_def)

lemma finalize_output_ok:
  assumes "get_reply e (length (downloads w)) u = Some b"
    and "json_encodable (JDict m)" and "str_encodable u" and "\<forall>n. str_encodable (now_iso e n)"
  shows "\<exists>m1 ts W. finalize_output e a (JDict m) u w = (Inr (), W) \<and>
      (m1 = m \<or> (\<exists>ts'. m1 = dict_set m ''driveOutputUploadedAt'' (JStr ts'))) \<and>
      entry_of W a = (entry_of w a)\<lparr>output_png := Some b, meta_json := Some (JsonText (JDict
          (dict_set (dict_set m1 ''outputUrl'' (JStr u)) ''finalizedAt'' (JStr ts))))\<rparr> \<and>
      rh_calls W = rh_calls w \<and> downloads W = downloads w @ [u] \<and> slept W = slept w"
proof -
  define w2 where "w2 = write_output a b (w\<lparr>downloads := downloads w @ [u]\<rparr>)"
  define f where "f = dict_get m ''driveFolderId''"
  define r where "r = (if GDRIVE_ENABLED e \<and> truthy f
                         then mirror_output e b f (JDict m) w2 else (JDict m, w2))"
  have w2: "entry_of w2 a = (entry_of w a)\<lparr>output_png := Some b\<rparr>" "rh_calls w2 = rh_calls w"
    "downloads w2 = downloads w @ [u]" "slept w2 = slept w"
    by (simp_all add: w2_def)
  have "\<exists>m1. fst r = JDict m1 \<and>
          (m1 = m \<or> (\<exists>ts'. m1 = dict_set m ''driveOutputUploadedAt'' (JStr ts')))
          \<and> json_encodable (JDict m1)"
  proof (cases "GDRIVE_ENABLED e \<and> truthy f")
    case True
    then have r: "r = mirror_output e b f (JDict m) w2" by (simp add: r_def)
    from mirror_output_meta[of e b f m w2]
    consider "fst r = JDict m"
      | "fst r = JDict (dict_set m ''driveOutputUploadedAt'' (JStr (now_iso e (clock (snd (get_drive e w2))))))"
      unfolding r by (auto simp: mirror_output_def get_drive_def drive_upload_bytes_def now_def
          set_item_def Let_def split: if_splits)
    then show ?thesis
    proof cases
      case 1
      with assms(2) show ?thesis by simp
    next
      case 2
      have "json_encodable (JDict (dict_set m ''driveOutputUploadedAt''
              (JStr (now_iso e (clock (snd (get_drive e w2)))))))"
        using assms(2,4) by (intro dict_set_encodable) simp_all
      with 2 show ?thesis by auto
    qed
  next
    case False
    then have "r = (JDict m, w2)" by (auto simp: r_def)
    with assms(2) show ?thesis by simp
  qed
  then obtain m1 where m1: "fst r = JDict m1"
    "m1 = m \<or> (\<exists>ts'. m1 = dict_set m ''driveOutputUploadedAt'' (JStr ts'))"
    "json_encodable (JDict m1)"
    by blast
  have w3: "entry_of (snd r) a = entry_of w2 a" "rh_calls (snd r) = rh_calls w2"
    "downloads (snd r) = downloads w2" "slept (snd r) = slept w2"
    using mirror_output_frame[of e b f "JDict m" w2 a] by (auto simp: r_def)
  have fo: "finalize_output e a (JDict m) u w = finalize_record e a f (fst r) u (snd r)"
    using assms(1)
    by (simp add: finalize_output_def download_def py_get_def Let_def
        w2_def f_def r_def split: prod.splits)
  have "str_encodable (now_iso e (clock (snd r)))"
    using assms(4) by simp
  from finalize_record_dict[OF m1(3) assms(3) this, of a f]
  obtain W where W: "finalize_record e a f (JDict m1) u (snd r) = (Inr (), W)"
     "entry_of W a = (entry_of (snd r) a)\<lparr>meta_json := Some (JsonText (JDict
        (dict_set (dict_set m1 ''outputUrl'' (JStr u)) ''finalizedAt''
           (JStr (now_iso e (clock (snd r)))))))\<rparr>"
     "rh_calls W = rh_calls (snd r)" "downloads W = downloads (snd r)" "slept W = slept (snd r)"
    by blast
  show ?thesis
    using fo m1(1,2) W w3 w2
    by (intro exI[of _ m1] exI[of _ "now_iso e (clock (snd r))"] exI[of _ W]) simp
qed

lemma finalize_output_uploads_fail:
  assumes "get_reply e (length (downloads w)) u = Some b"
    and "\<forall>n name p. \<not> upload_ok e n name p"
    and "json_encodable (JDict m)" and "str_encodable u"
    and "str_encodable (now_iso e (clock w))"
  shows "\<exists>W. finalize_output e a (JDict m) u w = (Inr (), W) \<and>
      entry_of W a = (entry_of w a)\<lparr>output_png := Some b, meta_json := Some (JsonText (JDict
          (dict_set (dict_set m ''outputUrl'' (JStr u)) ''finalizedAt''
             (JStr (now_iso e (clock w))))))\<rparr> \<and>
      rh_calls W = rh_calls w \<and> downloads W = downloads w @ [u] \<and> slept W = slept w \<and>
      drive_files W = drive_files w"
proof -
  define w2 where "w2 = write_output a b (w\<lparr>downloads := downloads w @ [u]\<rparr>)"
  define f where "f = dict_get m ''driveFolderId''"
  define r where "r = (if GDRIVE_ENABLED e \<and> truthy f
                         then mirror_output e b f (JDict m) w2 else (JDict m, w2))"
  have w2: "entry_of w2 a = (entry_of w a)\<lparr>output_png := Some b\<rparr>" "rh_calls w2 = rh_calls w"
    "downloads w2 = downloads w @ [u]" "slept w2 = slept w" "clock w2 = clock w"
    "drive_files w2 = drive_files w"
    by (simp_all add: w2_def)
  have m1: "fst r = JDict m" "clock (snd r) = clock w2" "drive_files (snd r) = drive_files w2"
    using mirror_output_uploads_fail[OF assms(2), of b f "JDict m" w2] by (auto simp: r_def)
  have w3: "entry_of (snd r) a = entry_of w2 a" "rh_calls (snd r) = rh_calls w2"
    "downloads (snd r) = downloads w2" "slept (snd r) = slept w2"
    using mirror_output_frame[of e b f "JDict m" w2 a] by (auto simp: r_def)
  have fo: "finalize_output e a (JDict m) u w = finalize_record e a f (fst r) u (snd r)"
    using assms(1)
    by (simp add: finalize_output_def download_def py_get_def Let_def
        w2_def f_def r_def split: prod.splits)
  have "str_encodable (now_iso e (clock (snd r)))"
    using assms(5) m1(2) w2(5) by simp
  from finalize_record_dict[OF assms(3,4) this, of a f]
  obtain W where W: "finalize_record e a f (JDict m) u (snd r) = (Inr (), W)"
     "entry_of W a = (entry_of (snd r) a)\<lparr>meta_json := Some (JsonText (JDict
        (dict_set (dict_set m ''outputUrl'' (JStr u)) ''finalizedAt''
           (JStr (now_iso e (clock (snd r)))))))\<rparr>"
     "rh_calls W = rh_calls (snd r)" "downloads W = downloads (snd r)" "slept W = slept (snd r)"
     "drive_files W = drive_files (snd r)"
    using assms(2) by blast
  show ?thesis
    using fo m1 W w3 w2 by (intro exI[of _ W]) simp
qed

lemma poll_url_nonempty: "poll_url e t i = Some u \<Longrightarrow> u \<noteq> []"
  by (auto simp: poll_url_def dest: find_first_http_url_nonempty
      split: http_reply.splits if_splits sum.splits)

lemma finalize_job_refused:
  "archive w a = None \<Longrightarrow> \<not> mkdir_ok e a \<Longrightarrow> finalize_job e t a w = (Inl MkdirError, w)"
  by (simp add: finalize_job_def get_play_dir_def)

lemma finalize_job_existing_output:
  assumes "output_png (entry_of w a) \<noteq> None"
  shows "snd (finalize_job e t a w) = w"
    and "meta_json (entry_of w a) \<noteq> Some OtherText \<Longrightarrow> fst (finalize_job e t a w) = Inr ()"
proof -
  have g: "get_play_dir e a w = Inr w"
    using assms by (intro get_play_dir_existing output_present_entry)
  show "snd (finalize_job e t a w) = w"
    using assms by (simp add: finalize_job_def g split: sum.splits)
  assume "meta_json (entry_of w a) \<noteq> Some OtherText"
  then obtain j where "read_meta a w = Inr j"
    using read_meta_parses by blast
  then show "fst (finalize_job e t a w) = Inr ()"
    using assms by (simp add: finalize_job_def g)
qed

lemma finalize_job_timeout:
  assumes "output_png (entry_of w a) = None" and "meta_readable w a"
    and "\<forall>i<300. poll_url e t (length (rh_calls w) + i) = None"
    and "archive w a \<noteq> None \<or> mkdir_ok e a"
  shows "finalize_job e t a w =
     write_meta a (JDict (dict_set (meta_dict w a) ''finalizeError''
                (JStr ''Timeout waiting for RunningHub output'')))
              (polled e t 300 300 (make_dir a w))"
proof -
  have "\<forall>i<300. poll_url e t (length (rh_calls (make_dir a w)) + i) = None"
    using assms(3) by simp
  then have p: "poll_loop e t 300 None (make_dir a w)
                  = (None, polled e t 300 300 (make_dir a w))"
    by (rule poll_loop_none)
  show ?thesis
    using assms(1) read_meta_readable[OF assms(2)] get_play_dir_ready[OF assms(4)]
    by (simp add: finalize_job_def p truthy_url_def finalize_timeout_def set_item_def)
qed

lemma finalize_job_hit:
  assumes "output_png (entry_of w a) = None" and "read_meta a w = Inr meta"
    and "k < 300" and "\<forall>i<k. poll_url e t (length (rh_calls w) + i) = None"
    and "poll_url e t (length (rh_calls w) + k) = Some u"
    and "archive w a \<noteq> None \<or> mkdir_ok e a"
  shows "finalize_job e t a w =
           finalize_output e a meta u (polled e t (Suc k) k (make_dir a w))"
proof -
  have n: "\<forall>i<k. poll_url e t (length (rh_calls (make_dir a w)) + i) = None"
    and h: "poll_url e t (length (rh_calls (make_dir a w)) + k) = Some u"
    using assms(4,5) by simp_all
  have p: "poll_loop e t 300 None (make_dir a w)
             = (Some u, polled e t (Suc k) k (make_dir a w))"
    using poll_loop_hit[OF assms(3) n h] .
  have "u \<noteq> []" using assms(5) by (rule poll_url_nonempty)
  then show ?thesis
    using assms(1,2) get_play_dir_ready[OF assms(6)]
    by (simp add: finalize_job_def p truthy_url_def)
qed
section \<open>What job submission does\<close>



lemma mirror_input_rh_calls: "rh_calls (snd (mirror_input e a b w)) = rh_calls w"
  by (simp add: mirror_input_def get_drive_def drive_create_folder_def drive_upload_bytes_def
      Let_def split: option.splits)

lemma mirror_input_folder:
  "fst (mirror_input e a b w) = JNull \<or>
   (\<exists>n f. create_folder_reply e n a (GDRIVE_ROOT_FOLDER_ID e) = Some f \<and>
          fst (mirror_input e a b w) = JStr f)"
  by (auto simp: mirror_input_def get_drive_def drive_create_folder_def drive_upload_bytes_def
      Let_def split: option.splits)

lemma mirror_input_clock: "clock (snd (mirror_input e a b w)) = clock w"
  by (simp add: mirror_input_def get_drive_def drive_create_folder_def drive_upload_bytes_def
      Let_def split: option.splits)

text \<open>
  Up to the request: with the directory made, \<^verbatim>\<open>api_run\<close> has the archive id and the seed, and
  a folder id that is \<^verbatim>\<open>None\<close> or one Drive handed out; nothing was posted yet.
\<close>

lemma run_prepare_result:
  assumes "mkdir_ok e (archive_id_at e (clock w))"
  shows "\<exists>dfid w4. run_prepare e photo seed w
            = (Inr (archive_id_at e (clock w), run_seed e seed w, dfid), w4)
       \<and> rh_calls w4 = rh_calls w
       \<and> (dfid = JNull \<or> (\<exists>n f. create_folder_reply e n (archive_id_at e (clock w))
                                  (GDRIVE_ROOT_FOLDER_ID e) = Some f \<and> dfid = JStr f))"
proof -
  obtain aid w1 where m: "make_archive_id e w = (aid, w1)" by force
  then have aid: "aid = archive_id_at e (clock w)" and w1: "rh_calls w1 = rh_calls w" "clock w1 = Suc (clock w)"
    by (auto simp: make_archive_id_def)
  have g: "get_play_dir e aid w1 = Inr (make_dir aid w1)"
    using assms aid by (simp add: get_play_dir_ok)
  let ?w2 = "write_input aid photo (make_dir aid w1)"
  have w2: "rh_calls ?w2 = rh_calls w" "clock ?w2 = Suc (clock w)"
    using w1 by (auto simp: write_input_def)
  obtain s w3 where sd: "(case seed of None \<Rightarrow> randint_seed e ?w2 | Some s \<Rightarrow> (s, ?w2)) = (s, w3)"
    by force
  then have s: "s = run_seed e seed w" and w3: "rh_calls w3 = rh_calls w"
    using w2 by (auto simp: randint_seed_def run_seed_def split: option.splits)
  obtain dfid w4 where dr: "(if GDRIVE_ENABLED e then mirror_input e aid photo w3 else (JNull, w3)) = (dfid, w4)"
    by force
  then have w4: "rh_calls w4 = rh_calls w"
    using w3 mirror_input_rh_calls[of e aid photo w3] by (auto split: if_splits)
  have df: "dfid = JNull \<or> (\<exists>n f. create_folder_reply e n aid (GDRIVE_ROOT_FOLDER_ID e) = Some f
                                    \<and> dfid = JStr f)"
    using dr mirror_input_folder[of e aid photo w3] by (auto split: if_splits)
  have "run_prepare e photo seed w = (Inr (aid, s, dfid), w4)"
    unfolding run_prepare_def m by (simp add: g Let_def sd dr)
  with aid s w4 df show ?thesis by blast
qed

text \<open>The record \<^verbatim>\<open>api_run\<close> writes can be encoded when its variable parts can.\<close>

lemma run_meta_encodable:
  "json_encodable (run_meta aid tid t s created dfid) \<longleftrightarrow>
     str_encodable aid \<and> json_encodable tid \<and> str_encodable t \<and> str_encodable created \<and>
     json_encodable dfid"
  by (simp add: run_meta_def str_encodable_def)

lemma run_record_fst:
  "fst (run_record e aid tid t s dfid w) =
     (if json_encodable (run_meta aid tid t s (now_iso e (clock w)) dfid)
      then Json200 (JDict [(''taskId'', tid), (''archiveId'', JStr aid)])
      else Error500 UnicodeEncodeError)"
  by (simp add: run_record_def now_def write_meta_def Let_def split: prod.splits)

text \<open>
  The answer of \<^verbatim>\<open>api_run\<close>, by the reply to its request. \<open>R\<close> says whether the record with
  the task id in it could be written.
\<close>

lemma api_run_outcome:
  assumes "API_KEY e \<noteq> []" "WORKFLOW_ID e \<noteq> []" "mkdir_ok e (archive_id_at e (clock w))"
  shows "\<exists>R. fst (api_run e photo t seed w) =
     (case rh_reply e (length (rh_calls w)) (RH_CREATE e)
             (create_payload e (node_info_list (b64encode e photo) (switch_value_of t)
                (run_seed e seed w))) of
        NoReply \<Rightarrow> Error500 TransportError
      | Reply st body \<Rightarrow>
          if st \<ge> 400 then Error500 (RuntimeError ''RunningHub HTTP'')
          else (case extract_task_id (body_json body) of
                  Inl ex \<Rightarrow> Error500 ex
                | Inr tid \<Rightarrow>
                    if truthy tid
                    then (if R tid
                          then Json200 (JDict [(''taskId'', tid),
                                         (''archiveId'', JStr (archive_id_at e (clock w)))])
                          else Error500 UnicodeEncodeError)
                    else Error500 (RuntimeError ''Missing taskId from run response'')))
     \<and> (\<forall>tid. R tid \<longrightarrow> json_encodable tid)
     \<and> (generated_texts_encodable e \<and> str_encodable t \<longrightarrow> (\<forall>tid. json_encodable tid \<longrightarrow> R tid))"
proof -
  obtain dfid w4 where p: "run_prepare e photo seed w
        = (Inr (archive_id_at e (clock w), run_seed e seed w, dfid), w4)"
    and c: "rh_calls w4 = rh_calls w"
    and df: "dfid = JNull \<or> (\<exists>n f. create_folder_reply e n (archive_id_at e (clock w))
                                  (GDRIVE_ROOT_FOLDER_ID e) = Some f \<and> dfid = JStr f)"
    using run_prepare_result[OF assms(3)] by blast
  define w5 where "w5 = w4\<lparr>rh_calls := rh_calls w4 @ [(RH_CREATE e,
      create_payload e (node_info_list (b64encode e photo) (switch_value_of t)
                (run_seed e seed w)))]\<rparr>"
  define R where "R tid = json_encodable (run_meta (archive_id_at e (clock w)) tid t
      (run_seed e seed w) (now_iso e (clock w5)) dfid)" for tid
  have 1: "\<forall>tid. R tid \<longrightarrow> json_encodable tid"
    by (simp add: R_def run_meta_encodable)
  have "generated_texts_encodable e \<Longrightarrow> json_encodable dfid"
    using df by (auto simp: generated_texts_encodable_def)
  then have 2: "generated_texts_encodable e \<and> str_encodable t \<longrightarrow>
                  (\<forall>tid. json_encodable tid \<longrightarrow> R tid)"
    by (auto simp: R_def run_meta_encodable generated_texts_encodable_def)
  have "fst (api_run e photo t seed w) =
     (case rh_reply e (length (rh_calls w)) (RH_CREATE e)
             (create_payload e (node_info_list (b64encode e photo) (switch_value_of t)
                (run_seed e seed w))) of
        NoReply \<Rightarrow> Error500 TransportError
      | Reply st body \<Rightarrow>
          if st \<ge> 400 then Error500 (RuntimeError ''RunningHub HTTP'')
          else (case extract_task_id (body_json body) of
                  Inl ex \<Rightarrow> Error500 ex
                | Inr tid \<Rightarrow>
                    if truthy tid
                    then (if R tid
                          then Json200 (JDict [(''taskId'', tid),
                                         (''archiveId'', JStr (archive_id_at e (clock w)))])
                          else Error500 UnicodeEncodeError)
                    else Error500 (RuntimeError ''Missing taskId from run response'')))"
    using assms(1,2)
    by (simp add: api_run_def p c rh_post_json_def Let_def run_record_fst R_def w5_def
        split: http_reply.splits sum.splits)
  with 1 2 show ?thesis by blast
qed





lemma extract_task_id_consulted:
  "extract_task_id (JDict r) =
     Inr (case List.find truthy (consulted_ids r) of
            Some tid \<Rightarrow> tid
          | None \<Rightarrow> last (consulted_ids r))"
  by (simp add: extract_task_id_def consulted_ids_def py_or_def split: json.splits)

lemma find_truthy_Some: "List.find truthy xs = Some tid \<Longrightarrow> truthy tid"
  by (auto simp: find_Some_iff)

lemma consulted_ids_nonempty: "consulted_ids r \<noteq> []"
  by (simp add: consulted_ids_def split: json.splits)

lemma find_truthy_None_last:
  "List.find truthy xs = None \<Longrightarrow> xs \<noteq> [] \<Longrightarrow> \<not> truthy (last xs)"
  by (auto simp: find_None_iff)

lemma consulted_subset_recognized: "set (consulted_ids r) \<subseteq> set (recognized_ids r)"
  by (auto simp: consulted_ids_def recognized_ids_def split: json.splits)

lemma meta_dict_written:
  "meta_json (entry_of w a) = Some (JsonText (JDict m)) \<Longrightarrow>
     meta_dict w a = m \<and> meta_readable w a"
  by (simp add: meta_dict_def meta_readable_def)

lemma meta_dict_same:
  "meta_json (entry_of w' a) = meta_json (entry_of w a) \<Longrightarrow>
     meta_dict w' a = meta_dict w a \<and> meta_readable w' a = meta_readable w a"
  by (simp add: meta_dict_def meta_readable_def)

text \<open>Whatever happens after the loop, no further request is posted and no sleep is added.\<close>

lemma finalize_record_frame:
  "rh_calls (snd (finalize_record e a f meta u w)) = rh_calls w \<and>
   slept (snd (finalize_record e a f meta u w)) = slept w"
  using mirror_meta_frame[of e f _ _ a]
  by (simp add: finalize_record_def now_def write_meta_def Let_def split: sum.splits)

lemma finalize_output_frame:
  "rh_calls (snd (finalize_output e a meta u w)) = rh_calls w \<and>
   slept (snd (finalize_output e a meta u w)) = slept w"
proof (cases "get_reply e (length (downloads w)) u")
  case None
  then show ?thesis by (simp add: finalize_output_download_fails)
next
  case (Some b)
  define w2 where "w2 = write_output a b (w\<lparr>downloads := downloads w @ [u]\<rparr>)"
  have w2: "rh_calls w2 = rh_calls w" "slept w2 = slept w"
    by (simp_all add: w2_def)
  show ?thesis
  proof (cases "py_get meta ''driveFolderId''")
    case (Inl ex)
    with Some w2 show ?thesis
      by (simp add: finalize_output_def download_def Let_def w2_def)
  next
    case (Inr f)
    define r where "r = (if GDRIVE_ENABLED e \<and> truthy f
                           then mirror_output e b f meta w2 else (meta, w2))"
    have r: "rh_calls (snd r) = rh_calls w2" "slept (snd r) = slept w2"
      using mirror_output_frame[of e b f meta w2 a] by (auto simp: r_def)
    have "finalize_output e a meta u w = finalize_record e a f (fst r) u (snd r)"
      using Some Inr
      by (simp add: finalize_output_def download_def Let_def w2_def r_def split: prod.splits)
    with r w2 show ?thesis
      by (simp add: finalize_record_frame)
  qed
qed

lemma finalize_timeout_frame:
  "rh_calls (snd (finalize_timeout a meta w)) = rh_calls w \<and>
   slept (snd (finalize_timeout a meta w)) = slept w"
  by (simp add: finalize_timeout_def split: sum.splits)

lemma finalize_job_refused_or_made:
  "finalize_job e t a w = (Inl MkdirError, w) \<or> get_play_dir e a w = Inr (make_dir a w)"
  using get_play_dir_cases[of e a w] by (auto simp: finalize_job_def)

lemma finalize_job_polls:
  "\<exists>k\<le>300. \<exists>s. (s = k \<or> Suc s = k) \<and>
     rh_calls (snd (finalize_job e t a w)) = rh_calls w @ replicate k (poll_request e t) \<and>
     slept (snd (finalize_job e t a w)) = slept w + 2 * s"
proof -
  from finalize_job_refused_or_made[of e t a w]
  consider (refused) "finalize_job e t a w = (Inl MkdirError, w)"
    | (unreadable) ex where "get_play_dir e a w = Inr (make_dir a w)" "read_meta a w = Inl ex"
    | (readable) meta where "get_play_dir e a w = Inr (make_dir a w)" "read_meta a w = Inr meta"
    by (cases "read_meta a w") auto
  then show ?thesis
  proof cases
  case refused
  then show ?thesis
    by (intro exI[of _ 0]) simp
next
  case unreadable
  then have "snd (finalize_job e t a w) = make_dir a w"
    by (simp add: finalize_job_def)
  then show ?thesis
    by (intro exI[of _ 0]) simp
next
  case readable
  note g = readable(1) and Inr = readable(2)
  show ?thesis
  proof (cases "output_png (entry_of w a) = None")
    case False
    then have "snd (finalize_job e t a w) = w"
      using finalize_job_existing_output(1) by blast
    then show ?thesis
      by (intro exI[of _ 0]) simp
  next
    case True
    let ?w = "make_dir a w"
    from poll_loop_cases[of 300 e t ?w]
    consider (hit) k u where "k < 300"
        "poll_loop e t 300 None ?w = (Some u, polled e t (Suc k) k ?w)"
        "poll_url e t (length (rh_calls ?w) + k) = Some u"
      | (none) "poll_loop e t 300 None ?w = (None, polled e t 300 300 ?w)"
      by blast
    then show ?thesis
    proof cases
      case hit
      have "u \<noteq> []" using hit(3) by (rule poll_url_nonempty)
      then have "finalize_job e t a w = finalize_output e a meta u (polled e t (Suc k) k ?w)"
        using True Inr g hit(2) by (simp add: finalize_job_def truthy_url_def)
      then have "rh_calls (snd (finalize_job e t a w))
                   = rh_calls w @ replicate (Suc k) (poll_request e t)"
        and "slept (snd (finalize_job e t a w)) = slept w + 2 * k"
        by (simp_all add: finalize_output_frame)
      with hit(1) show ?thesis
        by (intro exI[of _ "Suc k"] conjI exI[of _ k]) simp_all
    next
      case none
      then have "finalize_job e t a w = finalize_timeout a meta (polled e t 300 300 ?w)"
        using True Inr g by (simp add: finalize_job_def truthy_url_def)
      then have "rh_calls (snd (finalize_job e t a w))
                   = rh_calls w @ replicate 300 (poll_request e t)"
        and "slept (snd (finalize_job e t a w)) = slept w + 2 * 300"
        by (simp_all add: finalize_timeout_frame)
      then show ?thesis
        by (intro exI[of _ 300] conjI exI[of _ 300]) simp_all
    qed
  qed
qed
qed

lemma found_urls_dict:
  "found_urls (JDict m) =
     List.map_filter (key_match m) candidate_keys @ concat (map found_urls (dict_values m))"
  by (simp add: found_urls_def [abs_def] map_concat concat_map_concat comp_def)

lemma find_first_http_url_None_iff: "find_first_http_url x = None \<longleftrightarrow> found_urls x = []"
  by (simp add: find_first_http_url_found split: list.splits)




text \<open>
  The three ways a finalize run leaves the entry of a readable record, when the record, the
  URLs the polls give and the clock's texts are all ones UTF-8 encodes: untouched, with the
  timeout recorded, or with the output and the success fields.
\<close>

lemma finalize_job_outcomes:
  assumes "meta_readable w a" and "meta_encodable w a"
    and "\<forall>i u. poll_url e t i = Some u \<longrightarrow> str_encodable u"
    and "\<forall>n. str_encodable (now_iso e n)"
  shows "entry_of (snd (finalize_job e t a w)) a = entry_of w a
     \<or> (fst (finalize_job e t a w) = Inr () \<and>
        entry_of (snd (finalize_job e t a w)) a = (entry_of w a)\<lparr>meta_json :=
          Some (JsonText (JDict (dict_set (meta_dict w a) ''finalizeError''
            (JStr ''Timeout waiting for RunningHub output''))))\<rparr>)
     \<or> (\<exists>m1 u ts b. fst (finalize_job e t a w) = Inr () \<and>
          (m1 = meta_dict w a \<or>
           (\<exists>ts'. m1 = dict_set (meta_dict w a) ''driveOutputUploadedAt'' (JStr ts'))) \<and>
          entry_of (snd (finalize_job e t a w)) a = (entry_of w a)\<lparr>output_png := Some b,
            meta_json := Some (JsonText (JDict
              (dict_set (dict_set m1 ''outputUrl'' (JStr u)) ''finalizedAt'' (JStr ts))))\<rparr>)"
proof (cases "output_png (entry_of w a) = None")
  case False
  then have "snd (finalize_job e t a w) = w"
    using finalize_job_existing_output(1) by blast
  then show ?thesis by simp
next
  case True
  show ?thesis
  proof (cases "archive w a \<noteq> None \<or> mkdir_ok e a")
    case False
    then have "finalize_job e t a w = (Inl MkdirError, w)"
      by (intro finalize_job_refused) simp_all
    then show ?thesis by simp
  next
    case mk: True
  let ?w = "make_dir a w"
  have rm: "read_meta a w = Inr (JDict (meta_dict w a))"
    using assms(1) by (rule read_meta_readable)
  have enc: "json_encodable (JDict (meta_dict w a))"
    using assms(2) by (simp add: meta_encodable_def)
  from poll_loop_cases[of 300 e t w]
  consider (hit) k u where "k < 300"
      "\<forall>i<k. poll_url e t (length (rh_calls w) + i) = None"
      "poll_url e t (length (rh_calls w) + k) = Some u"
    | (none) "\<forall>i<300. poll_url e t (length (rh_calls w) + i) = None"
    by blast
  then show ?thesis
  proof cases
    case none
    have "json_encodable (JDict (dict_set (meta_dict w a) ''finalizeError''
                  (JStr ''Timeout waiting for RunningHub output'')))"
      using enc by (intro dict_set_encodable) simp_all
    then have "finalize_job e t a w =
       (Inr (), store_meta a (JsonText (JDict (dict_set (meta_dict w a) ''finalizeError''
                  (JStr ''Timeout waiting for RunningHub output''))))
                (polled e t 300 300 ?w))"
      using finalize_job_timeout[OF True assms(1) none mk] by (simp add: write_meta_encodable)
    then show ?thesis by simp
  next
    case hit
    let ?p = "polled e t (Suc k) k ?w"
    have fj: "finalize_job e t a w = finalize_output e a (JDict (meta_dict w a)) u ?p"
      using True rm hit mk by (rule finalize_job_hit)
    have u: "str_encodable u"
      using assms(3) hit(3) by blast
    show ?thesis
    proof (cases "get_reply e (length (downloads ?p)) u")
      case None
      then have "finalize_output e a (JDict (meta_dict w a)) u ?p
                   = (Inl DownloadError, ?p\<lparr>downloads := downloads ?p @ [u]\<rparr>)"
        by (rule finalize_output_download_fails)
      with fj show ?thesis by simp
    next
      case (Some b)
      from finalize_output_ok[OF Some enc u assms(4), of a]
      obtain m1 ts W where ok: "finalize_output e a (JDict (meta_dict w a)) u ?p = (Inr (), W)"
        "m1 = meta_dict w a \<or>
           (\<exists>ts'. m1 = dict_set (meta_dict w a) ''driveOutputUploadedAt'' (JStr ts'))"
        "entry_of W a = (entry_of ?p a)\<lparr>output_png := Some b, meta_json := Some (JsonText (JDict
            (dict_set (dict_set m1 ''outputUrl'' (JStr u)) ''finalizedAt'' (JStr ts))))\<rparr>"
        by blast
      have "fst (finalize_job e t a w) = Inr ()"
        and "entry_of (snd (finalize_job e t a w)) a =
               (entry_of w a)\<lparr>output_png := Some b, meta_json := Some (JsonText (JDict
                 (dict_set (dict_set m1 ''outputUrl'' (JStr u)) ''finalizedAt'' (JStr ts))))\<rparr>"
        using fj ok(1,3) by simp_all
      with ok(2) show ?thesis by blast
    qed
  qed
  qed
qed

text \<open>
  Under the same conditions a finalize run keeps every key of the record, and the record
  stays one that can be read and written back.
\<close>

lemma finalize_job_keeps_keys:
  assumes "meta_readable w a" and "meta_encodable w a"
    and "\<forall>i u. poll_url e t i = Some u \<longrightarrow> str_encodable u"
    and "\<forall>n. str_encodable (now_iso e n)"
  shows "meta_readable (snd (finalize_job e t a w)) a \<and>
         (has_key (meta_dict w a) k \<longrightarrow> has_key (meta_dict (snd (finalize_job e t a w)) a) k)"
  using finalize_job_outcomes[OF assms, of ] assms(1)
  by (elim disjE exE conjE)
     (auto simp: meta_dict_def meta_readable_def has_key_dict_set)

section \<open>Whole finalize runs\<close>

subsection \<open>A finalize run whose poll finds a URL\<close>

lemma finalize_job_success:
  assumes "output_png (entry_of w a) = None" and "meta_readable w a"
    and "k < 300" and "\<forall>i<k. poll_url e t (length (rh_calls w) + i) = None"
    and "poll_url e t (length (rh_calls w) + k) = Some u"
    and "get_reply e (length (downloads w)) u = Some b"
    and "mkdir_ok e a" and "meta_encodable w a" and "str_encodable u"
    and "\<forall>n. str_encodable (now_iso e n)"
  shows "\<exists>m1 ts. fst (finalize_job e t a w) = Inr () \<and>
      (m1 = meta_dict w a \<or>
       (\<exists>ts'. m1 = dict_set (meta_dict w a) ''driveOutputUploadedAt'' (JStr ts'))) \<and>
      entry_of (snd (finalize_job e t a w)) a =
        (entry_of w a)\<lparr>output_png := Some b, meta_json := Some (JsonText (JDict
          (dict_set (dict_set m1 ''outputUrl'' (JStr u)) ''finalizedAt'' (JStr ts))))\<rparr> \<and>
      rh_calls (snd (finalize_job e t a w)) = rh_calls w @ replicate (Suc k) (poll_request e t) \<and>
      slept (snd (finalize_job e t a w)) = slept w + 2 * k \<and>
      downloads (snd (finalize_job e t a w)) = downloads w @ [u]"
proof -
  let ?p = "polled e t (Suc k) k (make_dir a w)"
  have rm: "read_meta a w = Inr (JDict (meta_dict w a))"
    using assms(2) by (rule read_meta_readable)
  have mk: "archive w a \<noteq> None \<or> mkdir_ok e a"
    using assms(7) by simp
  have enc: "json_encodable (JDict (meta_dict w a))"
    using assms(8) by (simp add: meta_encodable_def)
  have fj: "finalize_job e t a w = finalize_output e a (JDict (meta_dict w a)) u ?p"
    using assms(1) rm assms(3,4,5) mk by (rule finalize_job_hit)
  have g: "get_reply e (length (downloads ?p)) u = Some b"
    using assms(6) by simp
  from finalize_output_ok[OF g enc assms(9,10), of a]
  obtain m1 ts W where ok: "finalize_output e a (JDict (meta_dict w a)) u ?p = (Inr (), W)"
    "m1 = meta_dict w a \<or>
       (\<exists>ts'. m1 = dict_set (meta_dict w a) ''driveOutputUploadedAt'' (JStr ts'))"
    "entry_of W a = (entry_of ?p a)\<lparr>output_png := Some b, meta_json := Some (JsonText (JDict
        (dict_set (dict_set m1 ''outputUrl'' (JStr u)) ''finalizedAt'' (JStr ts))))\<rparr>"
    "rh_calls W = rh_calls ?p" "downloads W = downloads ?p @ [u]" "slept W = slept ?p"
    by blast
  have "fst (finalize_job e t a w) = Inr ()"
    and "entry_of (snd (finalize_job e t a w)) a =
        (entry_of w a)\<lparr>output_png := Some b, meta_json := Some (JsonText (JDict
          (dict_set (dict_set m1 ''outputUrl'' (JStr u)) ''finalizedAt'' (JStr ts))))\<rparr>"
    and "rh_calls (snd (finalize_job e t a w)) = rh_calls w @ replicate (Suc k) (poll_request e t)"
    and "slept (snd (finalize_job e t a w)) = slept w + 2 * k"
    and "downloads (snd (finalize_job e t a w)) = downloads w @ [u]"
    using fj ok(1,3,4,5,6) by simp_all
  with ok(2) show ?thesis by blast
qed

lemma finalize_job_success_uploads_fail:
  assumes "output_png (entry_of w a) = None" and "meta_readable w a"
    and "k < 300" and "\<forall>i<k. poll_url e t (length (rh_calls w) + i) = None"
    and "poll_url e t (length (rh_calls w) + k) = Some u"
    and "get_reply e (length (downloads w)) u = Some b"
    and "\<forall>n name p. \<not> upload_ok e n name p"
    and "mkdir_ok e a" and "meta_encodable w a" and "str_encodable u"
    and "str_encodable (now_iso e (clock w))"
  shows "fst (finalize_job e t a w) = Inr ()"
    and "entry_of (snd (finalize_job e t a w)) a =
        (entry_of w a)\<lparr>output_png := Some b, meta_json := Some (JsonText (JDict
          (dict_set (dict_set (meta_dict w a) ''outputUrl'' (JStr u)) ''finalizedAt''
             (JStr (now_iso e (clock w))))))\<rparr>"
    and "drive_files (snd (finalize_job e t a w)) = drive_files w"
proof -
  let ?p = "polled e t (Suc k) k (make_dir a w)"
  have rm: "read_meta a w = Inr (JDict (meta_dict w a))"
    using assms(2) by (rule read_meta_readable)
  have mk: "archive w a \<noteq> None \<or> mkdir_ok e a"
    using assms(8) by simp
  have enc: "json_encodable (JDict (meta_dict w a))"
    using assms(9) by (simp add: meta_encodable_def)
  have fj: "finalize_job e t a w = finalize_output e a (JDict (meta_dict w a)) u ?p"
    using assms(1) rm assms(3,4,5) mk by (rule finalize_job_hit)
  have g: "get_reply e (length (downloads ?p)) u = Some b"
    using assms(6) by simp
  have c: "clock ?p = clock w" "drive_files ?p = drive_files w"
    by (simp_all add: polled_def)
  have ts: "str_encodable (now_iso e (clock ?p))"
    using assms(11) c by simp
  from finalize_output_uploads_fail[OF g assms(7) enc assms(10) ts, of a]
  obtain W where ok: "finalize_output e a (JDict (meta_dict w a)) u ?p = (Inr (), W)"
    "entry_of W a = (entry_of ?p a)\<lparr>output_png := Some b, meta_json := Some (JsonText (JDict
        (dict_set (dict_set (meta_dict w a) ''outputUrl'' (JStr u)) ''finalizedAt''
           (JStr (now_iso e (clock ?p))))))\<rparr>"
    "drive_files W = drive_files ?p"
    by blast
  show "fst (finalize_job e t a w) = Inr ()"
    using fj ok(1) by simp
  show "entry_of (snd (finalize_job e t a w)) a =
        (entry_of w a)\<lparr>output_png := Some b, meta_json := Some (JsonText (JDict
          (dict_set (dict_set (meta_dict w a) ''outputUrl'' (JStr u)) ''finalizedAt''
             (JStr (now_iso e (clock w))))))\<rparr>"
    using fj ok(1,2) c by simp
  show "drive_files (snd (finalize_job e t a w)) = drive_files w"
    using fj ok(1,3) c by simp
qed

lemma finalize_job_download_fails:
  assumes "output_png (entry_of w a) = None" and "meta_json (entry_of w a) \<noteq> Some OtherText"
    and "k < 300" and "\<forall>i<k. poll_url e t (length (rh_calls w) + i) = None"
    and "poll_url e t (length (rh_calls w) + k) = Some u"
    and "get_reply e (length (downloads w)) u = None"
    and "mkdir_ok e a"
  shows "fst (finalize_job e t a w) = Inl DownloadError"
    and "entry_of (snd (finalize_job e t a w)) a = entry_of w a"
proof -
  let ?p = "polled e t (Suc k) k (make_dir a w)"
  obtain meta where rm: "read_meta a w = Inr meta"
    using assms(2) read_meta_parses by blast
  have mk: "archive w a \<noteq> None \<or> mkdir_ok e a"
    using assms(7) by simp
  have fj: "finalize_job e t a w = finalize_output e a meta u ?p"
    using assms(1) rm assms(3,4,5) mk by (rule finalize_job_hit)
  have g: "get_reply e (length (downloads ?p)) u = None"
    using assms(6) by simp
  have fo: "finalize_output e a meta u ?p = (Inl DownloadError, ?p\<lparr>downloads := downloads ?p @ [u]\<rparr>)"
    using g by (rule finalize_output_download_fails)
  show "fst (finalize_job e t a w) = Inl DownloadError"
    using fj fo by simp
  show "entry_of (snd (finalize_job e t a w)) a = entry_of w a"
    using fj fo by simp
qed

lemma finalize_job_timeout_fields:
  assumes "output_png (entry_of w a) = None" and "meta_readable w a"
    and "\<forall>i<300. poll_url e t (length (rh_calls w) + i) = None"
    and "mkdir_ok e a" and "meta_encodable w a"
  shows "fst (finalize_job e t a w) = Inr ()"
    and "rh_calls (snd (finalize_job e t a w)) = rh_calls w @ replicate 300 (poll_request e t)"
    and "slept (snd (finalize_job e t a w)) = slept w + 600"
    and "downloads (snd (finalize_job e t a w)) = downloads w"
    and "entry_of (snd (finalize_job e t a w)) a = (entry_of w a)\<lparr>meta_json :=
          Some (JsonText (JDict (dict_set (meta_dict w a) ''finalizeError''
            (JStr ''Timeout waiting for RunningHub output''))))\<rparr>"
    and "meta_dict (snd (finalize_job e t a w)) a =
           dict_set (meta_dict w a) ''finalizeError'' (JStr ''Timeout waiting for RunningHub output'')"
proof -
  have mk: "archive w a \<noteq> None \<or> mkdir_ok e a"
    using assms(4) by simp
  have "json_encodable (JDict (dict_set (meta_dict w a) ''finalizeError''
                  (JStr ''Timeout waiting for RunningHub output'')))"
    using assms(5) unfolding meta_encodable_def by (intro dict_set_encodable) simp_all
  then have fj: "finalize_job e t a w =
       (Inr (), store_meta a (JsonText (JDict (dict_set (meta_dict w a) ''finalizeError''
                  (JStr ''Timeout waiting for RunningHub output''))))
                (polled e t 300 300 (make_dir a w)))"
    using finalize_job_timeout[OF assms(1,2,3) mk] by (simp add: write_meta_encodable)
  show "fst (finalize_job e t a w) = Inr ()"
    and "rh_calls (snd (finalize_job e t a w)) = rh_calls w @ replicate 300 (poll_request e t)"
    and "slept (snd (finalize_job e t a w)) = slept w + 600"
    and "downloads (snd (finalize_job e t a w)) = downloads w"
    and "entry_of (snd (finalize_job e t a w)) a = (entry_of w a)\<lparr>meta_json :=
          Some (JsonText (JDict (dict_set (meta_dict w a) ''finalizeError''
            (JStr ''Timeout waiting for RunningHub output''))))\<rparr>"
    and "meta_dict (snd (finalize_job e t a w)) a =
           dict_set (meta_dict w a) ''finalizeError'' (JStr ''Timeout waiting for RunningHub output'')"
    using fj by (simp_all add: meta_dict_def)
qed

lemma api_finalize_result:
  "fst (api_finalize e taskId a w) =
     (case fst (finalize_job e (JStr taskId) a w) of
        Inl ex \<Rightarrow> Inl ex
      | Inr u \<Rightarrow> Inr (Json200 (JDict [(''ok'', JBool True)])))"
  by (simp add: api_finalize_def split: prod.splits sum.splits)

subsection \<open>The concrete replies\<close>

lemma find_first_http_url_fileUrl:
  assumes "dict_get s ''fileUrl'' = JStr u" and "startswith u ''http''"
  shows "find_first_http_url (JDict s) = Some u"
proof -
  have "key_match s ''fileUrl'' = Some u"
    using assms by (simp add: key_match_Some_iff)
  then show ?thesis
    by (simp add: find_first_http_url_found found_urls_dict candidate_keys_def
        List.map_filter_simps)
qed

lemma find_first_http_url_empty: "find_first_http_url (JDict []) = None"
  by (simp add: find_first_http_url_None_iff found_urls_dict candidate_keys_def
      List.map_filter_simps key_match_def dict_values_def)

lemma find_first_http_url_out:
  "find_first_http_url (JDict [(''fileUrl'', JStr ''http://x/out.png'')]) = Some ''http://x/out.png''"
  by (rule find_first_http_url_fileUrl) (simp_all add: dict_get_def startswith_def)

lemma poll_url_ready: "poll_url ready_env t i = Some ''http://x/out.png''"
  by (simp add: poll_url_def ready_env_def test_env_def url_reply_def body_json_def
      py_get_default_def dict_get_default_def find_first_http_url_out)

lemma poll_url_broken_download: "poll_url broken_download_env t i = Some ''http://x/out.png''"
  by (simp add: poll_url_def broken_download_env_def test_env_def url_reply_def body_json_def
      py_get_default_def dict_get_default_def find_first_http_url_out)

lemma poll_url_silent: "poll_url silent_env t i = None"
  by (simp add: poll_url_def silent_env_def test_env_def empty_reply_def body_json_def
      py_get_default_def dict_get_default_def find_first_http_url_empty)

lemma poll_url_third:
  "poll_url third_env t i = (if i < 2 then None else Some ''http://x/out.png'')"
  by (simp add: poll_url_def third_env_def test_env_def third_replies_def url_reply_def
      empty_reply_def body_json_def py_get_default_def dict_get_default_def
      find_first_http_url_out find_first_http_url_empty)


lemma poll_url_late:
  "poll_url late_env t i = (if i < 300 then None else Some ''http://x/out.png'')"
  by (simp add: poll_url_def late_env_def test_env_def late_replies_def url_reply_def
      body_json_def py_get_default_def dict_get_default_def find_first_http_url_out)

lemma world0_entry:
  "entry_of world0 a = empty_entry" "rh_calls world0 = []" "downloads world0 = []"
  "slept world0 = 0" "clock world0 = 0" "drive_files world0 = []"
  "meta_readable world0 a" "meta_dict world0 a = []" "meta_encodable world0 a"
  by (simp_all add: world0_def entry_of_def meta_readable_def meta_dict_def empty_entry_def
      meta_encodable_def)

lemma submitted_world_entry:
  "entry_of submitted_world ''job'' = submitted_entry" "rh_calls submitted_world = []"
  "downloads submitted_world = []" "slept submitted_world = 0" "clock submitted_world = 0"
  "drive_files submitted_world = []"
  "meta_readable submitted_world ''job''"
  "meta_dict submitted_world ''job'' = [(''taskId'', JStr ''t''), (''driveFolderId'', JStr ''folder'')]"
  "meta_encodable submitted_world ''job''"
  by (simp_all add: submitted_world_def world0_def entry_of_def meta_readable_def meta_dict_def
      submitted_entry_def meta_encodable_def str_encodable_def)

lemma test_env_fields:
  "mkdir_ok (test_env d r c) a" "\<not> upload_ok (test_env d r c) n name p"
  "now_iso (test_env d r c) n = ''2026-02-17T10:00:00''"
  "get_reply (test_env d r c) n u = c" "GDRIVE_ENABLED (test_env d r c) = d"
  "rh_reply (test_env d r c) n url payload = r n"
  by (simp_all add: test_env_def)

lemma concrete_texts_encodable:
  "str_encodable ''http://x/out.png''" "str_encodable ''2026-02-17T10:00:00''"
  by (simp_all add: str_encodable_def)



subsection \<open>What is persisted once the download went through\<close>




lemma poll_request_explicit:
  "poll_request e t =
     (BASE e @ ''/task/openapi/outputs'', JDict [(''apiKey'', JStr (API_KEY e)), (''taskId'', t)])"
  by (simp add: poll_request_def RH_OUTPUTS_def outputs_payload_def)



lemma named_env_mkdir:
  "mkdir_ok ready_env a" "mkdir_ok third_env a" "mkdir_ok hidden_env a" "mkdir_ok late_env a"
  "mkdir_ok silent_env a" "mkdir_ok broken_download_env a"
  by (simp_all add: ready_env_def third_env_def hidden_env_def late_env_def silent_env_def
      broken_download_env_def test_env_fields)

lemma named_env_uploads:
  "\<not> upload_ok ready_env n name p" "\<not> upload_ok third_env n name p"
  "\<not> upload_ok hidden_env n name p" "\<not> upload_ok late_env n name p"
  "\<not> upload_ok silent_env n name p" "\<not> upload_ok broken_download_env n name p"
  by (simp_all add: ready_env_def third_env_def hidden_env_def late_env_def silent_env_def
      broken_download_env_def test_env_fields)

lemma named_env_clock:
  "now_iso ready_env n = ''2026-02-17T10:00:00''" "now_iso third_env n = ''2026-02-17T10:00:00''"
  "now_iso hidden_env n = ''2026-02-17T10:00:00''" "now_iso late_env n = ''2026-02-17T10:00:00''"
  "now_iso silent_env n = ''2026-02-17T10:00:00''"
  "now_iso broken_download_env n = ''2026-02-17T10:00:00''"
  by (simp_all add: ready_env_def third_env_def hidden_env_def late_env_def silent_env_def
      broken_download_env_def test_env_fields)

lemma named_env_download:
  "get_reply ready_env n u = Some [137, 80]" "get_reply third_env n u = Some [137, 80]"
  "get_reply hidden_env n u = Some [137, 80]" "get_reply late_env n u = Some [137, 80]"
  "get_reply silent_env n u = None" "get_reply broken_download_env n u = None"
  by (simp_all add: ready_env_def third_env_def hidden_env_def late_env_def silent_env_def
      broken_download_env_def test_env_fields)

lemma named_env_drive:
  "GDRIVE_ENABLED ready_env" "GDRIVE_ENABLED third_env" "\<not> GDRIVE_ENABLED hidden_env"
  "\<not> GDRIVE_ENABLED late_env" "\<not> GDRIVE_ENABLED silent_env"
  "\<not> GDRIVE_ENABLED broken_download_env"
  by (simp_all add: ready_env_def third_env_def hidden_env_def late_env_def silent_env_def
      broken_download_env_def test_env_fields)

lemmas named_env_fields =
  named_env_mkdir named_env_uploads named_env_clock named_env_download named_env_drive

subsection \<open>A timeout followed by a second run\<close>

lemma late_first_run:
  "output_png (entry_of (snd (finalize_job late_env t ''job'' world0)) ''job'') = None"
  "meta_readable (snd (finalize_job late_env t ''job'' world0)) ''job''"
  "meta_encodable (snd (finalize_job late_env t ''job'' world0)) ''job''"
  "meta_dict (snd (finalize_job late_env t ''job'' world0)) ''job'' =
     [(''finalizeError'', JStr ''Timeout waiting for RunningHub output'')]"
  "length (rh_calls (snd (finalize_job late_env t ''job'' world0))) = 300"
  "downloads (snd (finalize_job late_env t ''job'' world0)) = []"
  "fst (finalize_job late_env t ''job'' world0) = Inr ()"
  "meta_json (entry_of (snd (finalize_job late_env t ''job'' world0)) ''job'') =
     Some (JsonText (JDict [(''finalizeError'', JStr ''Timeout waiting for RunningHub output'')]))"
proof -
  have o: "output_png (entry_of world0 ''job'') = None"
    by (simp add: world0_entry empty_entry_def)
  have n: "\<forall>i<300. poll_url late_env t (length (rh_calls world0) + i) = None"
    by (simp add: poll_url_late world0_entry)
  note f = finalize_job_timeout_fields[OF o world0_entry(7) n named_env_mkdir(4) world0_entry(9)]
  show "output_png (entry_of (snd (finalize_job late_env t ''job'' world0)) ''job'') = None"
    using f(5) o by simp
  show m: "meta_dict (snd (finalize_job late_env t ''job'' world0)) ''job'' =
     [(''finalizeError'', JStr ''Timeout waiting for RunningHub output'')]"
    using f(6) by (simp add: world0_entry)
  show "meta_readable (snd (finalize_job late_env t ''job'' world0)) ''job''"
    using f(5) by (simp add: meta_readable_def)
  show "meta_encodable (snd (finalize_job late_env t ''job'' world0)) ''job''"
    unfolding meta_encodable_def m by (simp add: str_encodable_def)
  show "length (rh_calls (snd (finalize_job late_env t ''job'' world0))) = 300"
    using f(2) by (simp add: world0_entry)
  show "downloads (snd (finalize_job late_env t ''job'' world0)) = []"
    using f(4) by (simp add: world0_entry)
  show "fst (finalize_job late_env t ''job'' world0) = Inr ()"
    by (rule f(1))
  show "meta_json (entry_of (snd (finalize_job late_env t ''job'' world0)) ''job'') =
     Some (JsonText (JDict [(''finalizeError'', JStr ''Timeout waiting for RunningHub output'')]))"
    using f(5) by (simp add: world0_entry)
qed

lemma late_second_run:
  "fst (finalize_job late_env t ''job'' (snd (finalize_job late_env t ''job'' world0))) = Inr ()"
  "entry_of (snd (finalize_job late_env t ''job'' (snd (finalize_job late_env t ''job'' world0))))
      ''job'' =
     \<lparr>input_jpg = None, output_png = Some [137, 80],
      meta_json = Some (JsonText (JDict
        [(''finalizeError'', JStr ''Timeout waiting for RunningHub output''),
         (''outputUrl'', JStr ''http://x/out.png''),
         (''finalizedAt'', JStr ''2026-02-17T10:00:00'')]))\<rparr>"
proof -
  let ?w1 = "snd (finalize_job late_env t ''job'' world0)"
  have k: "(0::nat) < 300" by simp
  have before: "\<forall>i<0. poll_url late_env t (length (rh_calls ?w1) + i) = None" by simp
  have hit: "poll_url late_env t (length (rh_calls ?w1) + 0) = Some ''http://x/out.png''"
    by (simp add: late_first_run poll_url_late)
  have get: "get_reply late_env (length (downloads ?w1)) ''http://x/out.png'' = Some [137, 80]"
    by (simp add: named_env_fields)
  have up: "\<forall>n name p. \<not> upload_ok late_env n name p"
    by (simp add: named_env_fields)
  have ts: "str_encodable (now_iso late_env (clock ?w1))"
    by (simp add: named_env_fields concrete_texts_encodable)
  note f = finalize_job_success_uploads_fail[OF late_first_run(1) late_first_run(2) k before hit
      get up named_env_mkdir(4) late_first_run(3) concrete_texts_encodable(1) ts]
  show "fst (finalize_job late_env t ''job'' ?w1) = Inr ()"
    by (rule f(1))
  have en: "entry_of ?w1 ''job'' = \<lparr>input_jpg = None, output_png = None,
      meta_json = Some (JsonText (JDict
        [(''finalizeError'', JStr ''Timeout waiting for RunningHub output'')]))\<rparr>"
    using finalize_job_timeout_fields(5)[of world0 "''job''" late_env t]
    by (simp add: world0_entry empty_entry_def poll_url_late named_env_fields)
  show "entry_of (snd (finalize_job late_env t ''job'' ?w1)) ''job'' =
     \<lparr>input_jpg = None, output_png = Some [137, 80],
      meta_json = Some (JsonText (JDict
        [(''finalizeError'', JStr ''Timeout waiting for RunningHub output''),
         (''outputUrl'', JStr ''http://x/out.png''),
         (''finalizedAt'', JStr ''2026-02-17T10:00:00'')]))\<rparr>"
    using f(2) by (simp add: en late_first_run(4) named_env_fields)
qed

lemma third_run_record:
  "meta_dict (snd (finalize_job third_env t ''job'' submitted_world)) ''job'' =
     [(''taskId'', JStr ''t''), (''driveFolderId'', JStr ''folder''),
      (''outputUrl'', JStr ''http://x/out.png''),
      (''finalizedAt'', JStr ''2026-02-17T10:00:00'')]"
proof -
  have o: "output_png (entry_of submitted_world ''job'') = None"
    by (simp add: submitted_world_entry submitted_entry_def)
  have k: "(2::nat) < 300" by simp
  have before: "\<forall>i<2. poll_url third_env t (length (rh_calls submitted_world) + i) = None"
    by (simp add: submitted_world_entry poll_url_third)
  have hit: "poll_url third_env t (length (rh_calls submitted_world) + 2) = Some ''http://x/out.png''"
    by (simp add: submitted_world_entry poll_url_third)
  have get: "get_reply third_env (length (downloads submitted_world)) ''http://x/out.png''
               = Some [137, 80]"
    by (simp add: named_env_fields)
  have up: "\<forall>n name p. \<not> upload_ok third_env n name p"
    by (simp add: named_env_fields)
  have ts: "str_encodable (now_iso third_env (clock submitted_world))"
    by (simp add: named_env_fields concrete_texts_encodable)
  note f = finalize_job_success_uploads_fail[OF o submitted_world_entry(7) k before hit get up
      named_env_mkdir(2) submitted_world_entry(9) concrete_texts_encodable(1) ts]
  have "entry_of (snd (finalize_job third_env t ''job'' submitted_world)) ''job'' =
     submitted_entry\<lparr>output_png := Some [137, 80], meta_json := Some (JsonText (JDict
       [(''taskId'', JStr ''t''), (''driveFolderId'', JStr ''folder''),
        (''outputUrl'', JStr ''http://x/out.png''),
        (''finalizedAt'', JStr ''2026-02-17T10:00:00'')]))\<rparr>"
    using f(2) by (simp add: submitted_world_entry named_env_fields)
  then show ?thesis
    by (simp add: meta_dict_def)
qed
section \<open>Claims about URL extraction\<close>

text \<open>
  C5. URL extraction follows the stated order. The candidate keys are \<^verbatim>\<open>fileUrl\<close>, \<^verbatim>\<open>url\<close>,
  \<^verbatim>\<open>file\<close>, \<^verbatim>\<open>path\<close>, in this order. When no dictionary anywhere in the value has a string
  starting with \<^verbatim>\<open>http\<close> under a candidate key, the result is \<^verbatim>\<open>None\<close>. Otherwise take the
  first dictionary in depth-first order that has one (\<open>d\<close>, with none in the dictionaries
  \<open>before\<close> it) and in it the first candidate key that has one (\<open>k\<close>, with none under the
  keys \<open>higher\<close> in the list): the result is the string under that key.
\<close>

theorem find_first_http_url_first_match:
  "candidate_keys = [''fileUrl'', ''url'', ''file'', ''path''] \<and>
   ((\<forall>d\<in>set (dfs_dicts obj). \<forall>k\<in>set candidate_keys.
        \<forall>v. dict_get d k = JStr v \<longrightarrow> \<not> startswith v ''http'')
      \<longrightarrow> find_first_http_url obj = None) \<and>
   (dfs_dicts obj = before @ d # after \<and>
    (\<forall>d'\<in>set before. \<forall>k'\<in>set candidate_keys.
        \<forall>v'. dict_get d' k' = JStr v' \<longrightarrow> \<not> startswith v' ''http'') \<and>
    candidate_keys = higher @ k # lower \<and>
    (\<forall>k'\<in>set higher. \<forall>v'. dict_get d k' = JStr v' \<longrightarrow> \<not> startswith v' ''http'') \<and>
    dict_get d k = JStr v \<and> startswith v ''http''
      \<longrightarrow> find_first_http_url obj = Some v)"
proof (intro conjI impI)
  show "candidate_keys = [''fileUrl'', ''url'', ''file'', ''path'']"
    by (simp add: candidate_keys_def)
next
  assume "\<forall>d\<in>set (dfs_dicts obj). \<forall>k\<in>set candidate_keys.
            \<forall>v. dict_get d k = JStr v \<longrightarrow> \<not> startswith v ''http''"
  then show "find_first_http_url obj = None"
    by (simp add: find_first_http_url_found found_urls_none)
next
  assume "dfs_dicts obj = before @ d # after \<and>
    (\<forall>d'\<in>set before. \<forall>k'\<in>set candidate_keys.
        \<forall>v'. dict_get d' k' = JStr v' \<longrightarrow> \<not> startswith v' ''http'') \<and>
    candidate_keys = higher @ k # lower \<and>
    (\<forall>k'\<in>set higher. \<forall>v'. dict_get d k' = JStr v' \<longrightarrow> \<not> startswith v' ''http'') \<and>
    dict_get d k = JStr v \<and> startswith v ''http''"
  then obtain rest where "found_urls obj = v # rest"
    using found_urls_first[of obj before d after higher k lower v] by blast
  then show "find_first_http_url obj = Some v"
    by (simp add: find_first_http_url_found)
qed

text \<open>
  The witness: a list holding a string, a dictionary without a match and a dictionary whose
  \<^verbatim>\<open>url\<close> and \<^verbatim>\<open>path\<close> match and whose first value nests a \<^verbatim>\<open>fileUrl\<close>; and a value with no match.
\<close>

theorem find_first_http_url_first_match_witness:
  "find_first_http_url
     (JList [JStr ''http://a'',
             JDict [(''file'', JStr ''ftp://b'')],
             JDict [(''inner'', JDict [(''fileUrl'', JStr ''http://deep'')]),
                    (''path'', JStr ''http://low''),
                    (''url'', JStr ''http://top'')]])
     = Some ''http://top'' \<and>
   find_first_http_url (JList [JStr ''http://a'', JDict [(''file'', JStr ''ftp://b'')]]) = None"
proof -
  let ?first = "[(''file'', JStr ''ftp://b'')]"
  let ?inner = "[(''fileUrl'', JStr ''http://deep'')]"
  let ?second = "[(''inner'', JDict ?inner), (''path'', JStr ''http://low''),
             (''url'', JStr ''http://top'')]"
  let ?obj = "JList [JStr ''http://a'', JDict ?first, JDict ?second]"
  let ?none = "JList [JStr ''http://a'', JDict ?first]"
  have h1: "\<forall>d\<in>set (dfs_dicts ?none). \<forall>k\<in>set candidate_keys.
              \<forall>v. dict_get d k = JStr v \<longrightarrow> \<not> startswith v ''http''"
    by (simp add: candidate_keys_def dict_values_def dict_get_def startswith_def)
  have h2: "dfs_dicts ?obj = [?first] @ ?second # [?inner] \<and>
    (\<forall>d'\<in>set [?first]. \<forall>k'\<in>set candidate_keys.
        \<forall>v'. dict_get d' k' = JStr v' \<longrightarrow> \<not> startswith v' ''http'') \<and>
    candidate_keys = [''fileUrl''] @ ''url'' # [''file'', ''path''] \<and>
    (\<forall>k'\<in>set [''fileUrl'']. \<forall>v'. dict_get ?second k' = JStr v' \<longrightarrow> \<not> startswith v' ''http'') \<and>
    dict_get ?second ''url'' = JStr ''http://top'' \<and> startswith ''http://top'' ''http''"
    by (simp add: candidate_keys_def dict_values_def dict_get_def startswith_def)
  from find_first_http_url_first_match[of ?none] h1
  have "find_first_http_url ?none = None"
    by blast
  moreover
  from find_first_http_url_first_match[of ?obj "[?first]" ?second "[?inner]" "[''fileUrl'']" "''url''"
         "[''file'', ''path'']" "''http://top''"] h2
  have "find_first_http_url ?obj = Some ''http://top''"
    by blast
  ultimately show ?thesis
    by simp
qed

text \<open>
  C10. URL extraction only returns a string that is the value of a candidate key in some
  dictionary of the input and starts with \<^verbatim>\<open>http\<close>. A string that is the whole input, strings
  that are the elements of a list, and the string values of a dictionary whose candidate keys
  hold no string starting with \<^verbatim>\<open>http\<close> (so the values of other keys, and candidate values
  with another prefix) are not returned: the result is \<^verbatim>\<open>None\<close>. And the result is \<^verbatim>\<open>None\<close> for
  every input in which no dictionary has such a value.
\<close>

theorem find_first_http_url_only_candidates:
  "(find_first_http_url obj = Some v \<longrightarrow>
      (\<exists>d\<in>set (dfs_dicts obj). \<exists>k\<in>set candidate_keys.
          dict_get d k = JStr v \<and> startswith v ''http'')) \<and>
   find_first_http_url (JStr s) = None \<and>
   find_first_http_url (JList (map JStr ss)) = None \<and>
   ((\<forall>x\<in>set (dict_values d). \<exists>s'. x = JStr s') \<and>
    (\<forall>k\<in>set candidate_keys. \<forall>v'. dict_get d k = JStr v' \<longrightarrow> \<not> startswith v' ''http'')
      \<longrightarrow> find_first_http_url (JDict d) = None) \<and>
   ((\<forall>d'\<in>set (dfs_dicts obj). \<forall>k\<in>set candidate_keys.
        \<forall>v'. dict_get d' k = JStr v' \<longrightarrow> \<not> startswith v' ''http'')
      \<longrightarrow> find_first_http_url obj = None)"
proof (intro conjI impI)
  assume "find_first_http_url obj = Some v"
  then have "v \<in> set (found_urls obj)"
    by (auto simp: find_first_http_url_found split: list.splits)
  then show "\<exists>d\<in>set (dfs_dicts obj). \<exists>k\<in>set candidate_keys.
               dict_get d k = JStr v \<and> startswith v ''http''"
    by (rule found_urls_mem)
next
  show "find_first_http_url (JStr s) = None"
    by (simp add: find_first_http_url_def)
next
  have "concat (map dfs_dicts (map JStr ss)) = []"
    by (rule dfs_dicts_flat) auto
  then have "dfs_dicts (JList (map JStr ss)) = []"
    by (simp only: dfs_dicts.simps)
  then have "found_urls (JList (map JStr ss)) = []"
    by (rule found_urls_no_dicts)
  then show "find_first_http_url (JList (map JStr ss)) = None"
    by (simp only: find_first_http_url_found list.case)
next
  assume a: "(\<forall>x\<in>set (dict_values d). \<exists>s'. x = JStr s') \<and>
    (\<forall>k\<in>set candidate_keys. \<forall>v'. dict_get d k = JStr v' \<longrightarrow> \<not> startswith v' ''http'')"
  then have "concat (map dfs_dicts (dict_values d)) = []"
    by (intro dfs_dicts_flat) simp
  then have "dfs_dicts (JDict d) = [d]"
    by (simp only: dfs_dicts.simps)
  with a have "found_urls (JDict d) = []"
    by (intro found_urls_none) simp
  then show "find_first_http_url (JDict d) = None"
    by (simp add: find_first_http_url_found)
next
  assume "\<forall>d'\<in>set (dfs_dicts obj). \<forall>k\<in>set candidate_keys.
            \<forall>v'. dict_get d' k = JStr v' \<longrightarrow> \<not> startswith v' ''http''"
  then show "find_first_http_url obj = None"
    by (simp add: find_first_http_url_found found_urls_none)
qed

text \<open>
  The witness: a returned URL is found under \<^verbatim>\<open>url\<close> of the nested dictionary; a dictionary
  with an \<^verbatim>\<open>http\<close> string under another key and a candidate key with another prefix gives
  \<^verbatim>\<open>None\<close>; so do a list of strings and a bare string.
\<close>

theorem find_first_http_url_only_candidates_witness:
  "find_first_http_url (JDict [(''link'', JStr ''http://a''), (''url'', JStr ''ftp://b'')]) = None \<and>
   find_first_http_url (JList (map JStr [''http://a'', ''http://b''])) = None \<and>
   find_first_http_url (JStr ''http://a'') = None \<and>
   dict_get [(''url'', JStr ''http://c'')] ''url'' = JStr ''http://c'' \<and>
   find_first_http_url (JList [JStr ''http://a'', JDict [(''url'', JStr ''http://c'')]])
     = Some ''http://c''"
proof -
  let ?second = "[(''link'', JStr ''http://a''), (''url'', JStr ''ftp://b'')]"
  let ?obj = "JList [JStr ''http://a'', JDict [(''url'', JStr ''http://c'')]]"
  note inst = find_first_http_url_only_candidates[of ?obj "''http://c''" "''http://a''"
      "[''http://a'', ''http://b'']" ?second]
  have h: "(\<forall>x\<in>set (dict_values ?second). \<exists>s'. x = JStr s') \<and>
    (\<forall>k\<in>set candidate_keys. \<forall>v'. dict_get ?second k = JStr v' \<longrightarrow> \<not> startswith v' ''http'')"
    by (simp add: candidate_keys_def dict_values_def dict_get_def startswith_def)
  have r: "find_first_http_url ?obj = Some ''http://c''"
    by (simp add: find_first_http_url_def candidate_keys_def dict_values_def dict_get_def
        startswith_def)
  from inst h have "find_first_http_url (JDict ?second) = None"
    by blast
  moreover from inst have "find_first_http_url (JList (map JStr [''http://a'', ''http://b''])) = None"
    by blast
  moreover from inst have "find_first_http_url (JStr ''http://a'') = None"
    by blast
  moreover from inst r have "\<exists>d\<in>set (dfs_dicts ?obj). \<exists>k\<in>set candidate_keys.
      dict_get d k = JStr ''http://c'' \<and> startswith ''http://c'' ''http''"
    by blast
  ultimately show ?thesis
    using r by (simp add: dict_get_def)
qed

section \<open>Claims about job submission\<close>



text \<open>
  C6, as the code has it. The body of a reply is what \<^verbatim>\<open>r.json()\<close> parses, or the dictionary
  \<^verbatim>\<open>{"raw": text}\<close> when it does not parse. \<^verbatim>\<open>extract_task_id\<close> looks at the keys \<^verbatim>\<open>taskId\<close>,
  \<^verbatim>\<open>task_id\<close>, \<^verbatim>\<open>id\<close> of a \<^verbatim>\<open>data\<close> object, or at a \<^verbatim>\<open>data\<close> string, and at the top-level keys
  \<^verbatim>\<open>taskId\<close>, \<^verbatim>\<open>task_id\<close> only when \<^verbatim>\<open>data\<close> is neither an object nor a string. With the
  configuration present and the archive directory made, for the reply to the create request:

  \<^item> a status below 400 with a dictionary body: job creation takes the first of the values
    looked at that is true in Python's sense, and answers with it when the record holding it
    can be encoded as UTF-8; an identifier that cannot be encoded gives the 500 answer of the
    failed write; and when no value looked at is true, job creation fails with the 500
    answer carrying the missing-task-id error;

  \<^item> any reply with no true value at any of the places the specification lists (no reply at
    all, a status of 400 or more, a body that is not a dictionary or does not parse, or a
    dictionary without an identifier): job creation fails with a 500 answer;

  \<^item> a status of 400 or more: job creation fails with the 500 answer of the HTTP error.
\<close>

theorem create_job_task_id:
  "(API_KEY e \<noteq> [] \<and> WORKFLOW_ID e \<noteq> [] \<and> mkdir_ok e (archive_id_at e (clock w)) \<and>
    reply = rh_reply e (length (rh_calls w)) (RH_CREATE e)
      (create_payload e (node_info_list (b64encode e photo)
         (switch_value_of templateId) (run_seed e seed w))) \<longrightarrow>
      (reply = Reply st body \<and> st < 400 \<and> body_json body = JDict r \<and>
       List.find truthy (consulted_ids r) = Some tid \<longrightarrow>
         (json_encodable tid \<and> str_encodable templateId \<and> generated_texts_encodable e \<longrightarrow>
            fst (api_run e photo templateId seed w) =
              Json200 (JDict [(''taskId'', tid),
                              (''archiveId'', JStr (archive_id_at e (clock w)))])) \<and>
         (\<not> json_encodable tid \<longrightarrow>
            fst (api_run e photo templateId seed w) = Error500 UnicodeEncodeError)) \<and>
      (reply = Reply st body \<and> st < 400 \<and> body_json body = JDict r \<and>
       List.find truthy (consulted_ids r) = None \<longrightarrow>
         fst (api_run e photo templateId seed w) =
           Error500 (RuntimeError ''Missing taskId from run response'')) \<and>
      (List.find truthy (reply_ids reply) = None \<longrightarrow>
         fst (api_run e photo templateId seed w) \<in>
           {Error500 TransportError, Error500 (RuntimeError ''RunningHub HTTP''),
            Error500 AttributeError,
            Error500 (RuntimeError ''Missing taskId from run response'')}) \<and>
      (reply = Reply st body \<and> st \<ge> 400 \<longrightarrow>
         fst (api_run e photo templateId seed w) =
           Error500 (RuntimeError ''RunningHub HTTP''))) \<and>
   extract_task_id (JDict r) =
     Inr (case List.find truthy (consulted_ids r) of
            Some tid' \<Rightarrow> tid'
          | None \<Rightarrow> last (consulted_ids r)) \<and>
   set (consulted_ids r) \<subseteq> set (recognized_ids r)"
proof (intro conjI impI)
  show "extract_task_id (JDict r) =
     Inr (case List.find truthy (consulted_ids r) of
            Some tid' \<Rightarrow> tid'
          | None \<Rightarrow> last (consulted_ids r))"
    by (rule extract_task_id_consulted)
next
  show "set (consulted_ids r) \<subseteq> set (recognized_ids r)"
    by (rule consulted_subset_recognized)
next
  assume a: "API_KEY e \<noteq> [] \<and> WORKFLOW_ID e \<noteq> [] \<and> mkdir_ok e (archive_id_at e (clock w)) \<and>
    reply = rh_reply e (length (rh_calls w)) (RH_CREATE e)
      (create_payload e (node_info_list (b64encode e photo)
         (switch_value_of templateId) (run_seed e seed w)))"
  then have cfg: "API_KEY e \<noteq> []" "WORKFLOW_ID e \<noteq> []" "mkdir_ok e (archive_id_at e (clock w))"
    by simp_all
  from api_run_outcome[OF cfg, of photo templateId seed] a
  obtain R where out: "fst (api_run e photo templateId seed w) =
     (case reply of
        NoReply \<Rightarrow> Error500 TransportError
      | Reply st body \<Rightarrow>
          if st \<ge> 400 then Error500 (RuntimeError ''RunningHub HTTP'')
          else (case extract_task_id (body_json body) of
                  Inl ex \<Rightarrow> Error500 ex
                | Inr tid \<Rightarrow>
                    if truthy tid
                    then (if R tid
                          then Json200 (JDict [(''taskId'', tid),
                                         (''archiveId'', JStr (archive_id_at e (clock w)))])
                          else Error500 UnicodeEncodeError)
                    else Error500 (RuntimeError ''Missing taskId from run response'')))"
    and R1: "\<forall>tid. R tid \<longrightarrow> json_encodable tid"
    and R2: "generated_texts_encodable e \<and> str_encodable templateId \<longrightarrow>
              (\<forall>tid. json_encodable tid \<longrightarrow> R tid)"
    by auto
  {
    assume h: "reply = Reply st body \<and> st < 400 \<and> body_json body = JDict r \<and>
       List.find truthy (consulted_ids r) = Some tid"
    then have "List.find truthy (consulted_ids r) = Some tid" by simp
    then have t: "truthy tid" by (rule find_truthy_Some)
    {
      assume "json_encodable tid \<and> str_encodable templateId \<and> generated_texts_encodable e"
      with R2 have "R tid" by blast
      with out h t
      show "fst (api_run e photo templateId seed w) =
              Json200 (JDict [(''taskId'', tid),
                              (''archiveId'', JStr (archive_id_at e (clock w)))])"
        by (simp add: extract_task_id_consulted)
    }
    {
      assume "\<not> json_encodable tid"
      with R1 have "\<not> R tid" by blast
      with out h t
      show "fst (api_run e photo templateId seed w) = Error500 UnicodeEncodeError"
        by (simp add: extract_task_id_consulted)
    }
  }
  {
    assume h: "reply = Reply st body \<and> st < 400 \<and> body_json body = JDict r \<and>
       List.find truthy (consulted_ids r) = None"
    then have "List.find truthy (consulted_ids r) = None" by simp
    then have "\<not> truthy (last (consulted_ids r))"
      using consulted_ids_nonempty by (rule find_truthy_None_last)
    with out h
    show "fst (api_run e photo templateId seed w) =
           Error500 (RuntimeError ''Missing taskId from run response'')"
      by (simp add: extract_task_id_consulted)
  }
  {
    assume h: "List.find truthy (reply_ids reply) = None"
    show "fst (api_run e photo templateId seed w) \<in>
           {Error500 TransportError, Error500 (RuntimeError ''RunningHub HTTP''),
            Error500 AttributeError,
            Error500 (RuntimeError ''Missing taskId from run response'')}"
    proof (cases reply)
      case NoReply
      with out show ?thesis by simp
    next
      case (Reply st' body')
      show ?thesis
      proof (cases "st' \<ge> 400")
        case True
        with out Reply show ?thesis by simp
      next
        case False
        show ?thesis
        proof (cases "\<exists>r'. body_json body' = JDict r'")
          case True
          then obtain r' where r': "body_json body' = JDict r'" by blast
          with h Reply have "List.find truthy (recognized_ids r') = None"
            by (simp add: reply_ids_def)
          then have "List.find truthy (consulted_ids r') = None"
            using consulted_subset_recognized[of r'] by (auto simp: find_None_iff)
          then have "\<not> truthy (last (consulted_ids r'))"
            using consulted_ids_nonempty by (rule find_truthy_None_last)
          with out Reply False r' \<open>List.find truthy (consulted_ids r') = None\<close>
          show ?thesis
            by (simp add: extract_task_id_consulted)
        next
          case no: False
          then have "extract_task_id (body_json body') = Inl AttributeError"
            by (cases "body_json body'") (simp_all add: extract_task_id_def)
          with out Reply False show ?thesis by simp
        qed
      qed
    qed
  }
  {
    assume "reply = Reply st body \<and> st \<ge> 400"
    with out
    show "fst (api_run e photo templateId seed w) = Error500 (RuntimeError ''RunningHub HTTP'')"
      by simp
  }
qed

text \<open>
  The witness: the accepted submission yields the identifier under \<^verbatim>\<open>data.taskId\<close>; the reply
  with the identifier at the top level beside an empty \<^verbatim>\<open>data\<close> object yields the error.
\<close>

theorem create_job_task_id_witness:
  "fst (api_run submit_env [] ''fai_chun_02'' (Some 7) world0) =
     Json200 (JDict [(''taskId'', JStr ''task-1''),
                     (''archiveId'', JStr ''2026-02-17_100000_0a1b2c3d'')]) \<and>
   fst (api_run top_level_id_env [] ''fai_chun_02'' (Some 7) world0) =
     Error500 (RuntimeError ''Missing taskId from run response'') \<and>
   extract_task_id (JDict top_level_id_body) = Inr JNull"
proof -
  let ?ok = "[(''data'', JDict [(''taskId'', JStr ''task-1'')])]"
  note i1 = create_job_task_id[of submit_env world0 created_reply "[]" "''fai_chun_02''" "Some 7"
      200 "Json (JDict ?ok)" ?ok "JStr ''task-1''"]
  note i2 = create_job_task_id[of top_level_id_env world0
      "Reply 200 (Json (JDict top_level_id_body))" "[]" "''fai_chun_02''" "Some 7" 200
      "Json (JDict top_level_id_body)" top_level_id_body JNull]
  have h1: "API_KEY submit_env \<noteq> [] \<and> WORKFLOW_ID submit_env \<noteq> [] \<and>
    mkdir_ok submit_env (archive_id_at submit_env (clock world0)) \<and>
    created_reply = rh_reply submit_env (length (rh_calls world0)) (RH_CREATE submit_env)
      (create_payload submit_env (node_info_list (b64encode submit_env [])
         (switch_value_of ''fai_chun_02'') (run_seed submit_env (Some 7) world0)))"
    by (simp add: submit_env_def test_env_def)
  have r1: "created_reply = Reply 200 (Json (JDict ?ok)) \<and> (200::nat) < 400 \<and>
            body_json (Json (JDict ?ok)) = JDict ?ok"
    by (simp add: created_reply_def body_json_def)
  have f1: "List.find truthy (consulted_ids ?ok) = Some (JStr ''task-1'')"
    by (simp add: consulted_ids_def dict_get_def)
  have e1: "json_encodable (JStr ''task-1'') \<and> str_encodable ''fai_chun_02'' \<and>
            generated_texts_encodable submit_env"
    by (simp add: str_encodable_def generated_texts_encodable_def submit_env_def test_env_def)
  have h2: "API_KEY top_level_id_env \<noteq> [] \<and> WORKFLOW_ID top_level_id_env \<noteq> [] \<and>
    mkdir_ok top_level_id_env (archive_id_at top_level_id_env (clock world0)) \<and>
    Reply 200 (Json (JDict top_level_id_body)) =
      rh_reply top_level_id_env (length (rh_calls world0)) (RH_CREATE top_level_id_env)
      (create_payload top_level_id_env (node_info_list (b64encode top_level_id_env [])
         (switch_value_of ''fai_chun_02'') (run_seed top_level_id_env (Some 7) world0)))"
    by (simp add: top_level_id_env_def test_env_def)
  have r2: "(200::nat) < 400 \<and> body_json (Json (JDict top_level_id_body)) = JDict top_level_id_body"
    by (simp add: body_json_def)
  have f2: "List.find truthy (consulted_ids top_level_id_body) = None"
    by (simp add: consulted_ids_def top_level_id_body_def dict_get_def)
  from i1 h1 r1 f1 e1 have "fst (api_run submit_env [] ''fai_chun_02'' (Some 7) world0) =
     Json200 (JDict [(''taskId'', JStr ''task-1''),
                     (''archiveId'', JStr (archive_id_at submit_env (clock world0)))])"
    by blast
  moreover from i2 h2 r2 f2
  have "fst (api_run top_level_id_env [] ''fai_chun_02'' (Some 7) world0) =
     Error500 (RuntimeError ''Missing taskId from run response'')"
    by blast
  moreover from i2 f2 have "extract_task_id (JDict top_level_id_body)
      = Inr (last (consulted_ids top_level_id_body))"
    by simp
  ultimately show ?thesis
    by (simp add: world0_def submit_env_def test_env_def consulted_ids_def
        top_level_id_body_def dict_get_def)
qed

text \<open>
  C6 as stated fails: this reply holds the identifier \<^verbatim>\<open>abc\<close> under the recognized top-level
  key \<^verbatim>\<open>taskId\<close>, and job creation fails on it, because its \<^verbatim>\<open>data\<close> field is an object.
\<close>

theorem create_job_ignores_top_level_id:
  "List.find truthy (recognized_ids top_level_id_body) = Some (JStr ''abc'') \<and>
   rh_reply top_level_id_env 0 (RH_CREATE top_level_id_env)
      (create_payload top_level_id_env (node_info_list [] 1 7))
     = Reply 200 (Json (JDict top_level_id_body)) \<and>
   fst (api_run top_level_id_env [] ''fai_chun_01'' (Some 7) world0) =
     Error500 (RuntimeError ''Missing taskId from run response'')"
proof -
  have cfg: "API_KEY top_level_id_env \<noteq> []" "WORKFLOW_ID top_level_id_env \<noteq> []"
    "mkdir_ok top_level_id_env (archive_id_at top_level_id_env (clock world0))"
    by (simp_all add: top_level_id_env_def test_env_def)
  have "extract_task_id (JDict top_level_id_body) = Inr JNull"
    by (simp add: extract_task_id_def top_level_id_body_def dict_get_def py_or_def)
  then have "fst (api_run top_level_id_env [] ''fai_chun_01'' (Some 7) world0) =
     Error500 (RuntimeError ''Missing taskId from run response'')"
    using api_run_outcome[OF cfg, of "[]" "''fai_chun_01''" "Some 7"]
    by (auto simp: top_level_id_env_def test_env_def body_json_def)
  then show ?thesis
    by (simp add: recognized_ids_def top_level_id_body_def dict_get_def
        top_level_id_env_def test_env_def)
qed

section \<open>Claims about the finalize routine\<close>

text \<open>
  C1. For every archive id, task id, environment and state of the world: when \<^verbatim>\<open>output.png\<close>
  exists in the archive entry, \<^verbatim>\<open>finalize_job\<close> leaves the world exactly as it was, so it
  posts no request to RunningHub, downloads nothing, sleeps not at all, and changes neither
  the record nor any artifact of any entry. It returns normally whenever \<^verbatim>\<open>meta.json\<close> is
  absent or parses (the record is read before the guard is looked at).
\<close>

theorem finalize_job_noop_when_finalized:
  "output_png (entry_of w archive_id) \<noteq> None \<longrightarrow>
     snd (finalize_job e task_id archive_id w) = w \<and>
     (meta_json (entry_of w archive_id) \<noteq> Some OtherText \<longrightarrow>
        fst (finalize_job e task_id archive_id w) = Inr ())"
proof (intro impI conjI)
  assume "output_png (entry_of w archive_id) \<noteq> None"
  then show "snd (finalize_job e task_id archive_id w) = w"
    by (rule finalize_job_existing_output(1))
next
  assume "output_png (entry_of w archive_id) \<noteq> None"
    and "meta_json (entry_of w archive_id) \<noteq> Some OtherText"
  then show "fst (finalize_job e task_id archive_id w) = Inr ()"
    by (rule finalize_job_existing_output(2))
qed

text \<open>
  The witness: the entry with an output, in an environment where RunningHub would hand out
  the URL at the first poll.
\<close>

theorem finalize_job_noop_when_finalized_witness:
  "finalize_job ready_env (JStr ''t'') ''job'' finalized_world = (Inr (), finalized_world)"
proof -
  have o: "output_png (entry_of finalized_world ''job'') \<noteq> None"
    and m: "meta_json (entry_of finalized_world ''job'') \<noteq> Some OtherText"
    by (simp_all add: finalized_world_def entry_of_def world0_def submitted_entry_def)
  from finalize_job_noop_when_finalized[of finalized_world "''job''" ready_env "JStr ''t''"] o m
  have "snd (finalize_job ready_env (JStr ''t'') ''job'' finalized_world) = finalized_world"
    and "fst (finalize_job ready_env (JStr ''t'') ''job'' finalized_world) = Inr ()"
    by blast+
  then show ?thesis
    by (simp add: prod_eq_iff)
qed

text \<open>
  C4. For every input a finalize run posts at most 300 poll requests, all of them the
  request for the outputs of the task, and sleeps two seconds after each poll that gave no
  URL (so after all of them, or after all but the last); it always returns or raises, the
  loop being bounded. When no poll gives a URL (no output yet, the directory made, the
  record a dictionary that can be written back) it has posted 300 requests and slept 600
  seconds, returns normally, the persisted record is the old one with \<^verbatim>\<open>finalizeError\<close> set,
  nothing was downloaded and there is no output artifact.
\<close>

theorem finalize_poll_bound:
  "(\<exists>k\<le>300. \<exists>s. (s = k \<or> Suc s = k) \<and>
      rh_calls (snd (finalize_job e t a w)) = rh_calls w @
        replicate k (BASE e @ ''/task/openapi/outputs'',
                     JDict [(''apiKey'', JStr (API_KEY e)), (''taskId'', t)]) \<and>
      slept (snd (finalize_job e t a w)) = slept w + 2 * s) \<and>
   (output_png (entry_of w a) = None \<and> meta_readable w a \<and> meta_encodable w a \<and>
    mkdir_ok e a \<and> (\<forall>i<300. poll_url e t (length (rh_calls w) + i) = None) \<longrightarrow>
      fst (finalize_job e t a w) = Inr () \<and>
      rh_calls (snd (finalize_job e t a w)) = rh_calls w @
        replicate 300 (BASE e @ ''/task/openapi/outputs'',
                       JDict [(''apiKey'', JStr (API_KEY e)), (''taskId'', t)]) \<and>
      slept (snd (finalize_job e t a w)) = slept w + 600 \<and>
      meta_json (entry_of (snd (finalize_job e t a w)) a) =
        Some (JsonText (JDict (dict_set (meta_dict w a) ''finalizeError''
                (JStr ''Timeout waiting for RunningHub output'')))) \<and>
      has_key (meta_dict (snd (finalize_job e t a w)) a) ''finalizeError'' \<and>
      output_png (entry_of (snd (finalize_job e t a w)) a) = None \<and>
      downloads (snd (finalize_job e t a w)) = downloads w)"
proof (intro conjI impI)
  show "\<exists>k\<le>300. \<exists>s. (s = k \<or> Suc s = k) \<and>
      rh_calls (snd (finalize_job e t a w)) = rh_calls w @
        replicate k (BASE e @ ''/task/openapi/outputs'',
                     JDict [(''apiKey'', JStr (API_KEY e)), (''taskId'', t)]) \<and>
      slept (snd (finalize_job e t a w)) = slept w + 2 * s"
    using finalize_job_polls[of e t a w] by (simp only: poll_request_explicit)
next
  assume h: "output_png (entry_of w a) = None \<and> meta_readable w a \<and> meta_encodable w a \<and>
    mkdir_ok e a \<and> (\<forall>i<300. poll_url e t (length (rh_calls w) + i) = None)"
  then have o: "output_png (entry_of w a) = None" and r: "meta_readable w a"
    and en: "meta_encodable w a" and mk: "mkdir_ok e a"
    and n: "\<forall>i<300. poll_url e t (length (rh_calls w) + i) = None"
    by simp_all
  note f = finalize_job_timeout_fields[OF o r n mk en]
  show "fst (finalize_job e t a w) = Inr ()"
    by (rule f(1))
  show "rh_calls (snd (finalize_job e t a w)) = rh_calls w @
        replicate 300 (BASE e @ ''/task/openapi/outputs'',
                       JDict [(''apiKey'', JStr (API_KEY e)), (''taskId'', t)])"
    using f(2) by (simp only: poll_request_explicit)
  show "slept (snd (finalize_job e t a w)) = slept w + 600"
    by (rule f(3))
  show "downloads (snd (finalize_job e t a w)) = downloads w"
    by (rule f(4))
  show "meta_json (entry_of (snd (finalize_job e t a w)) a) =
        Some (JsonText (JDict (dict_set (meta_dict w a) ''finalizeError''
                (JStr ''Timeout waiting for RunningHub output''))))"
    using f(5) by simp
  show "has_key (meta_dict (snd (finalize_job e t a w)) a) ''finalizeError''"
    using f(6) by (simp add: has_key_dict_set)
  show "output_png (entry_of (snd (finalize_job e t a w)) a) = None"
    using f(5) o by simp
qed

text \<open>The witness: RunningHub never has an output for a job that has no entry yet.\<close>

theorem finalize_poll_bound_witness:
  "fst (finalize_job silent_env (JStr ''t'') ''job'' world0) = Inr () \<and>
   length (rh_calls (snd (finalize_job silent_env (JStr ''t'') ''job'' world0))) = 300 \<and>
   slept (snd (finalize_job silent_env (JStr ''t'') ''job'' world0)) = 600 \<and>
   meta_json (entry_of (snd (finalize_job silent_env (JStr ''t'') ''job'' world0)) ''job'') =
     Some (JsonText (JDict [(''finalizeError'', JStr ''Timeout waiting for RunningHub output'')])) \<and>
   output_png (entry_of (snd (finalize_job silent_env (JStr ''t'') ''job'' world0)) ''job'') = None \<and>
   downloads (snd (finalize_job silent_env (JStr ''t'') ''job'' world0)) = []"
proof -
  have h: "output_png (entry_of world0 ''job'') = None \<and> meta_readable world0 ''job'' \<and>
    meta_encodable world0 ''job'' \<and> mkdir_ok silent_env ''job'' \<and>
    (\<forall>i<300. poll_url silent_env (JStr ''t'') (length (rh_calls world0) + i) = None)"
    by (simp add: world0_entry empty_entry_def poll_url_silent named_env_fields)
  from finalize_poll_bound[of silent_env "JStr ''t''" "''job''" world0] h
  have "fst (finalize_job silent_env (JStr ''t'') ''job'' world0) = Inr () \<and>
      rh_calls (snd (finalize_job silent_env (JStr ''t'') ''job'' world0)) = rh_calls world0 @
        replicate 300 (BASE silent_env @ ''/task/openapi/outputs'',
                       JDict [(''apiKey'', JStr (API_KEY silent_env)), (''taskId'', JStr ''t'')]) \<and>
      slept (snd (finalize_job silent_env (JStr ''t'') ''job'' world0)) = slept world0 + 600 \<and>
      meta_json (entry_of (snd (finalize_job silent_env (JStr ''t'') ''job'' world0)) ''job'') =
        Some (JsonText (JDict (dict_set (meta_dict world0 ''job'') ''finalizeError''
                (JStr ''Timeout waiting for RunningHub output'')))) \<and>
      has_key (meta_dict (snd (finalize_job silent_env (JStr ''t'') ''job'' world0)) ''job'')
        ''finalizeError'' \<and>
      output_png (entry_of (snd (finalize_job silent_env (JStr ''t'') ''job'' world0)) ''job'') = None \<and>
      downloads (snd (finalize_job silent_env (JStr ''t'') ''job'' world0)) = downloads world0"
    by blast
  then show ?thesis
    by (simp add: world0_entry)
qed

text \<open>
  C7. Take a finalize run that gets as far as the Cloud Mirror: no output yet, the directory
  made, the record a dictionary that can be written back, a poll that gives a URL, and a
  download that goes through. Let every upload to Drive fail, whether the client loads or
  not, and whether the record has a Drive folder or not (it has none when the folder
  creation failed at submission). Then the run returns normally, the output artifact holds
  the downloaded bytes, the persisted record is the old one with \<^verbatim>\<open>outputUrl\<close> and
  \<^verbatim>\<open>finalizedAt\<close> set, the input artifact is untouched, and nothing reached Drive.
\<close>

theorem finalize_survives_mirror_failure:
  "output_png (entry_of w a) = None \<and> meta_readable w a \<and> meta_encodable w a \<and> mkdir_ok e a \<and>
   k < 300 \<and> (\<forall>i<k. poll_url e t (length (rh_calls w) + i) = None) \<and>
   poll_url e t (length (rh_calls w) + k) = Some u \<and>
   str_encodable u \<and> str_encodable (now_iso e (clock w)) \<and>
   get_reply e (length (downloads w)) u = Some b \<and>
   (\<forall>n name p. \<not> upload_ok e n name p) \<longrightarrow>
     fst (finalize_job e t a w) = Inr () \<and>
     entry_of (snd (finalize_job e t a w)) a =
       (entry_of w a)\<lparr>output_png := Some b, meta_json := Some (JsonText (JDict
          (dict_set (dict_set (meta_dict w a) ''outputUrl'' (JStr u)) ''finalizedAt''
             (JStr (now_iso e (clock w))))))\<rparr> \<and>
     drive_files (snd (finalize_job e t a w)) = drive_files w"
proof (intro impI)
  assume h: "output_png (entry_of w a) = None \<and> meta_readable w a \<and> meta_encodable w a \<and>
   mkdir_ok e a \<and>
   k < 300 \<and> (\<forall>i<k. poll_url e t (length (rh_calls w) + i) = None) \<and>
   poll_url e t (length (rh_calls w) + k) = Some u \<and>
   str_encodable u \<and> str_encodable (now_iso e (clock w)) \<and>
   get_reply e (length (downloads w)) u = Some b \<and>
   (\<forall>n name p. \<not> upload_ok e n name p)"
  then have 1: "output_png (entry_of w a) = None" and 2: "meta_readable w a"
    and 3: "k < 300" and 4: "\<forall>i<k. poll_url e t (length (rh_calls w) + i) = None"
    and 5: "poll_url e t (length (rh_calls w) + k) = Some u"
    and 6: "get_reply e (length (downloads w)) u = Some b"
    and 7: "\<forall>n name p. \<not> upload_ok e n name p"
    and 8: "mkdir_ok e a" and 9: "meta_encodable w a" and 10: "str_encodable u"
    and 11: "str_encodable (now_iso e (clock w))"
    by simp_all
  note f = finalize_job_success_uploads_fail[OF 1 2 3 4 5 6 7 8 9 10 11]
  show "fst (finalize_job e t a w) = Inr () \<and>
     entry_of (snd (finalize_job e t a w)) a =
       (entry_of w a)\<lparr>output_png := Some b, meta_json := Some (JsonText (JDict
          (dict_set (dict_set (meta_dict w a) ''outputUrl'' (JStr u)) ''finalizedAt''
             (JStr (now_iso e (clock w))))))\<rparr> \<and>
     drive_files (snd (finalize_job e t a w)) = drive_files w"
    using f by simp
qed

text \<open>
  The witness: Drive is switched on, the record has a folder, the client loads and both
  uploads fail; the URL comes with the third poll.
\<close>

theorem finalize_survives_mirror_failure_witness:
  "GDRIVE_ENABLED third_env \<and>
   truthy (dict_get (meta_dict submitted_world ''job'') ''driveFolderId'') \<and>
   fst (finalize_job third_env (JStr ''t'') ''job'' submitted_world) = Inr () \<and>
   entry_of (snd (finalize_job third_env (JStr ''t'') ''job'' submitted_world)) ''job'' =
     \<lparr>input_jpg = Some [255, 216], output_png = Some [137, 80],
      meta_json = Some (JsonText (JDict
        [(''taskId'', JStr ''t''), (''driveFolderId'', JStr ''folder''),
         (''outputUrl'', JStr ''http://x/out.png''),
         (''finalizedAt'', JStr ''2026-02-17T10:00:00'')]))\<rparr> \<and>
   drive_files (snd (finalize_job third_env (JStr ''t'') ''job'' submitted_world)) = []"
proof -
  have h: "output_png (entry_of submitted_world ''job'') = None \<and>
   meta_readable submitted_world ''job'' \<and> meta_encodable submitted_world ''job'' \<and>
   mkdir_ok third_env ''job'' \<and>
   (2::nat) < 300 \<and>
   (\<forall>i<2. poll_url third_env (JStr ''t'') (length (rh_calls submitted_world) + i) = None) \<and>
   poll_url third_env (JStr ''t'') (length (rh_calls submitted_world) + 2)
     = Some ''http://x/out.png'' \<and>
   str_encodable ''http://x/out.png'' \<and>
   str_encodable (now_iso third_env (clock submitted_world)) \<and>
   get_reply third_env (length (downloads submitted_world)) ''http://x/out.png''
     = Some [137, 80] \<and>
   (\<forall>n name p. \<not> upload_ok third_env n name p)"
    by (simp add: submitted_world_entry submitted_entry_def poll_url_third named_env_fields
        concrete_texts_encodable)
  from finalize_survives_mirror_failure[of submitted_world "''job''" third_env 2 "JStr ''t''"
      "''http://x/out.png''" "[137, 80]"] h
  have "fst (finalize_job third_env (JStr ''t'') ''job'' submitted_world) = Inr () \<and>
     entry_of (snd (finalize_job third_env (JStr ''t'') ''job'' submitted_world)) ''job'' =
       (entry_of submitted_world ''job'')\<lparr>output_png := Some [137, 80],
          meta_json := Some (JsonText (JDict
          (dict_set (dict_set (meta_dict submitted_world ''job'') ''outputUrl''
                (JStr ''http://x/out.png'')) ''finalizedAt''
             (JStr (now_iso third_env (clock submitted_world))))))\<rparr> \<and>
     drive_files (snd (finalize_job third_env (JStr ''t'') ''job'' submitted_world))
       = drive_files submitted_world"
    by blast
  then show ?thesis
    by (simp add: submitted_world_entry submitted_entry_def named_env_fields dict_get_def)
qed




text \<open>
  C3, as the code has it. Of the two fatal conditions only the timeout is recorded. When no
  poll gives a URL (no output yet, the directory made, the record a dictionary that can be
  written back), \<^verbatim>\<open>finalize_job\<close> returns normally, the persisted record has the timeout
  message as \<^verbatim>\<open>finalizeError\<close>, and \<^verbatim>\<open>api_finalize\<close> answers \<^verbatim>\<open>{"ok": true}\<close>. The download is
  outside any \<^verbatim>\<open>try\<close>: when a poll gives a URL and the download of it fails, \<^verbatim>\<open>finalize_job\<close>
  raises the error of the download, \<^verbatim>\<open>api_finalize\<close>, which awaits it with nothing around it,
  raises it too, and the record and the artifacts of the entry are left as they were, so
  the failure is not recorded.
\<close>

theorem finalize_failure_handling:
  "(output_png (entry_of w a) = None \<and> meta_readable w a \<and> meta_encodable w a \<and>
    mkdir_ok e a \<and>
    (\<forall>i<300. poll_url e (JStr taskId) (length (rh_calls w) + i) = None) \<longrightarrow>
      fst (finalize_job e (JStr taskId) a w) = Inr () \<and>
      dict_get (meta_dict (snd (finalize_job e (JStr taskId) a w)) a) ''finalizeError''
        = JStr ''Timeout waiting for RunningHub output'' \<and>
      fst (api_finalize e taskId a w) = Inr (Json200 (JDict [(''ok'', JBool True)]))) \<and>
   (output_png (entry_of w a) = None \<and> meta_json (entry_of w a) \<noteq> Some OtherText \<and>
    mkdir_ok e a \<and> k < 300 \<and>
    (\<forall>i<k. poll_url e (JStr taskId) (length (rh_calls w) + i) = None) \<and>
    poll_url e (JStr taskId) (length (rh_calls w) + k) = Some u \<and>
    get_reply e (length (downloads w)) u = None \<longrightarrow>
      fst (finalize_job e (JStr taskId) a w) = Inl DownloadError \<and>
      entry_of (snd (finalize_job e (JStr taskId) a w)) a = entry_of w a \<and>
      fst (api_finalize e taskId a w) = Inl DownloadError)"
proof (intro conjI impI)
  assume h: "output_png (entry_of w a) = None \<and> meta_readable w a \<and> meta_encodable w a \<and>
    mkdir_ok e a \<and>
    (\<forall>i<300. poll_url e (JStr taskId) (length (rh_calls w) + i) = None)"
  then have o: "output_png (entry_of w a) = None" and r: "meta_readable w a"
    and en: "meta_encodable w a" and mk: "mkdir_ok e a"
    and n: "\<forall>i<300. poll_url e (JStr taskId) (length (rh_calls w) + i) = None"
    by simp_all
  note f = finalize_job_timeout_fields[OF o r n mk en]
  show "fst (finalize_job e (JStr taskId) a w) = Inr ()"
    by (rule f(1))
  show "dict_get (meta_dict (snd (finalize_job e (JStr taskId) a w)) a) ''finalizeError''
        = JStr ''Timeout waiting for RunningHub output''"
    using f(6) by (simp add: dict_get_dict_set)
  show "fst (api_finalize e taskId a w) = Inr (Json200 (JDict [(''ok'', JBool True)]))"
    using f(1) by (simp add: api_finalize_result)
next
  assume h: "output_png (entry_of w a) = None \<and> meta_json (entry_of w a) \<noteq> Some OtherText \<and>
    mkdir_ok e a \<and> k < 300 \<and>
    (\<forall>i<k. poll_url e (JStr taskId) (length (rh_calls w) + i) = None) \<and>
    poll_url e (JStr taskId) (length (rh_calls w) + k) = Some u \<and>
    get_reply e (length (downloads w)) u = None"
  then have 1: "output_png (entry_of w a) = None"
    and 2: "meta_json (entry_of w a) \<noteq> Some OtherText"
    and 3: "k < 300"
    and 4: "\<forall>i<k. poll_url e (JStr taskId) (length (rh_calls w) + i) = None"
    and 5: "poll_url e (JStr taskId) (length (rh_calls w) + k) = Some u"
    and 6: "get_reply e (length (downloads w)) u = None"
    and 7: "mkdir_ok e a"
    by simp_all
  note f = finalize_job_download_fails[OF 1 2 3 4 5 6 7]
  show "fst (finalize_job e (JStr taskId) a w) = Inl DownloadError"
    by (rule f(1))
  show "entry_of (snd (finalize_job e (JStr taskId) a w)) a = entry_of w a"
    by (rule f(2))
  show "fst (api_finalize e taskId a w) = Inl DownloadError"
    using f(1) by (simp add: api_finalize_result)
qed

text \<open>
  The witness, on the entry left by a submission: RunningHub never has an output; and
  RunningHub has the URL at once but the download of it fails.
\<close>

theorem finalize_failure_handling_witness:
  "fst (finalize_job silent_env (JStr ''t'') ''job'' submitted_world) = Inr () \<and>
   dict_get (meta_dict (snd (finalize_job silent_env (JStr ''t'') ''job'' submitted_world)) ''job'')
      ''finalizeError'' = JStr ''Timeout waiting for RunningHub output'' \<and>
   fst (api_finalize silent_env ''t'' ''job'' submitted_world)
     = Inr (Json200 (JDict [(''ok'', JBool True)])) \<and>
   fst (finalize_job broken_download_env (JStr ''t'') ''job'' submitted_world) = Inl DownloadError \<and>
   entry_of (snd (finalize_job broken_download_env (JStr ''t'') ''job'' submitted_world)) ''job''
     = submitted_entry \<and>
   fst (api_finalize broken_download_env ''t'' ''job'' submitted_world) = Inl DownloadError"
proof -
  have h1: "output_png (entry_of submitted_world ''job'') = None \<and>
    meta_readable submitted_world ''job'' \<and> meta_encodable submitted_world ''job'' \<and>
    mkdir_ok silent_env ''job'' \<and>
    (\<forall>i<300. poll_url silent_env (JStr ''t'') (length (rh_calls submitted_world) + i) = None)"
    by (simp add: submitted_world_entry submitted_entry_def poll_url_silent named_env_fields)
  have h2: "output_png (entry_of submitted_world ''job'') = None \<and>
    meta_json (entry_of submitted_world ''job'') \<noteq> Some OtherText \<and>
    mkdir_ok broken_download_env ''job'' \<and> (0::nat) < 300 \<and>
    (\<forall>i<0. poll_url broken_download_env (JStr ''t'') (length (rh_calls submitted_world) + i)
              = None) \<and>
    poll_url broken_download_env (JStr ''t'') (length (rh_calls submitted_world) + 0)
      = Some ''http://x/out.png'' \<and>
    get_reply broken_download_env (length (downloads submitted_world)) ''http://x/out.png'' = None"
    by (simp add: submitted_world_entry submitted_entry_def poll_url_broken_download
        named_env_fields)
  from finalize_failure_handling[of submitted_world "''job''" silent_env "''t''"] h1
  have "fst (finalize_job silent_env (JStr ''t'') ''job'' submitted_world) = Inr () \<and>
      dict_get (meta_dict (snd (finalize_job silent_env (JStr ''t'') ''job'' submitted_world))
         ''job'') ''finalizeError'' = JStr ''Timeout waiting for RunningHub output'' \<and>
      fst (api_finalize silent_env ''t'' ''job'' submitted_world)
        = Inr (Json200 (JDict [(''ok'', JBool True)]))"
    by blast
  moreover
  from finalize_failure_handling[of submitted_world "''job''" broken_download_env "''t''" 0
      "''http://x/out.png''"] h2
  have "fst (finalize_job broken_download_env (JStr ''t'') ''job'' submitted_world)
        = Inl DownloadError \<and>
      entry_of (snd (finalize_job broken_download_env (JStr ''t'') ''job'' submitted_world)) ''job''
        = entry_of submitted_world ''job'' \<and>
      fst (api_finalize broken_download_env ''t'' ''job'' submitted_world) = Inl DownloadError"
    by blast
  ultimately show ?thesis
    by (simp add: submitted_world_entry)
qed

text \<open>
  C3 as stated fails. RunningHub answers the first poll with the URL and the download of it
  fails: the error leaves \<^verbatim>\<open>finalize_job\<close> and \<^verbatim>\<open>api_finalize\<close> as an exception, and no record is
  written.
\<close>

theorem finalize_raises_download_error:
  "rh_reply broken_download_env 0 (RH_OUTPUTS broken_download_env)
      (outputs_payload broken_download_env (JStr ''t''))
     = Reply 200 (Json (JDict [(''fileUrl'', JStr ''http://x/out.png'')])) \<and>
   get_reply broken_download_env 0 ''http://x/out.png'' = None \<and>
   fst (finalize_job broken_download_env (JStr ''t'') ''job'' world0) = Inl DownloadError \<and>
   meta_json (entry_of (snd (finalize_job broken_download_env (JStr ''t'') ''job'' world0)) ''job'')
     = None \<and>
   fst (api_finalize broken_download_env ''t'' ''job'' world0) = Inl DownloadError"
proof -
  have 1: "output_png (entry_of world0 ''job'') = None"
    and 2: "meta_json (entry_of world0 ''job'') \<noteq> Some OtherText"
    by (simp_all add: world0_entry empty_entry_def)
  have 3: "(0::nat) < 300" by simp
  have 4: "\<forall>i<0. poll_url broken_download_env (JStr ''t'') (length (rh_calls world0) + i) = None"
    by simp
  have 5: "poll_url broken_download_env (JStr ''t'') (length (rh_calls world0) + 0)
             = Some ''http://x/out.png''"
    by (simp add: poll_url_broken_download)
  have 6: "get_reply broken_download_env (length (downloads world0)) ''http://x/out.png'' = None"
    by (simp add: named_env_fields)
  note f = finalize_job_download_fails[OF 1 2 3 4 5 6 named_env_mkdir(6)]
  have "meta_json (entry_of (snd (finalize_job broken_download_env (JStr ''t'') ''job'' world0))
          ''job'') = None"
    using f(2) by (simp add: world0_entry empty_entry_def)
  moreover have "fst (api_finalize broken_download_env ''t'' ''job'' world0) = Inl DownloadError"
    using f(1) by (simp add: api_finalize_result)
  ultimately show ?thesis
    using f(1)
    by (simp add: named_env_fields broken_download_env_def test_env_fields url_reply_def)
qed

text \<open>
  C2, as the code has it. A finalize run only ever sets fields: \<^verbatim>\<open>finalizeError\<close> on a timeout,
  \<^verbatim>\<open>outputUrl\<close> and \<^verbatim>\<open>finalizedAt\<close> on success, and it removes none. Take a record that is a
  dictionary and can be written back, polls whose URLs can be encoded and a clock whose
  texts can be. Then after a run the record is again such a dictionary and has every key it
  had. A run that starts from a record with none of the three fields leaves a record with
  \<^verbatim>\<open>outputUrl\<close> and \<^verbatim>\<open>finalizedAt\<close> and without \<^verbatim>\<open>finalizeError\<close>, or one with \<^verbatim>\<open>finalizeError\<close> and
  without the other two, or the record it found. But a run that succeeds on a record that
  has \<^verbatim>\<open>finalizeError\<close> from an earlier timeout leaves a record with all three fields.
\<close>

theorem finalize_outcome_fields:
  "meta_readable w a \<and> meta_encodable w a \<and>
   (\<forall>i u. poll_url e t i = Some u \<longrightarrow> str_encodable u) \<and>
   (\<forall>n. str_encodable (now_iso e n)) \<longrightarrow>
     meta_readable (snd (finalize_job e t a w)) a \<and>
     (has_key (meta_dict w a) k \<longrightarrow> has_key (meta_dict (snd (finalize_job e t a w)) a) k) \<and>
     (\<not> has_key (meta_dict w a) ''finalizeError'' \<and> \<not> has_key (meta_dict w a) ''outputUrl'' \<and>
      \<not> has_key (meta_dict w a) ''finalizedAt'' \<longrightarrow>
        (has_key (meta_dict (snd (finalize_job e t a w)) a) ''outputUrl'' \<and>
         has_key (meta_dict (snd (finalize_job e t a w)) a) ''finalizedAt'' \<and>
         \<not> has_key (meta_dict (snd (finalize_job e t a w)) a) ''finalizeError'') \<or>
        (has_key (meta_dict (snd (finalize_job e t a w)) a) ''finalizeError'' \<and>
         \<not> has_key (meta_dict (snd (finalize_job e t a w)) a) ''outputUrl'' \<and>
         \<not> has_key (meta_dict (snd (finalize_job e t a w)) a) ''finalizedAt'') \<or>
        meta_dict (snd (finalize_job e t a w)) a = meta_dict w a) \<and>
     (has_key (meta_dict w a) ''finalizeError'' \<and> output_png (entry_of w a) = None \<and>
      mkdir_ok e a \<and> j < 300 \<and>
      (\<forall>i<j. poll_url e t (length (rh_calls w) + i) = None) \<and>
      poll_url e t (length (rh_calls w) + j) = Some u \<and>
      get_reply e (length (downloads w)) u = Some b \<longrightarrow>
        has_key (meta_dict (snd (finalize_job e t a w)) a) ''finalizeError'' \<and>
        has_key (meta_dict (snd (finalize_job e t a w)) a) ''outputUrl'' \<and>
        has_key (meta_dict (snd (finalize_job e t a w)) a) ''finalizedAt'')"
proof (intro impI)
  assume h: "meta_readable w a \<and> meta_encodable w a \<and>
   (\<forall>i u. poll_url e t i = Some u \<longrightarrow> str_encodable u) \<and>
   (\<forall>n. str_encodable (now_iso e n))"
  then have r: "meta_readable w a" and en: "meta_encodable w a"
    and us: "\<forall>i u. poll_url e t i = Some u \<longrightarrow> str_encodable u"
    and ts: "\<forall>n. str_encodable (now_iso e n)"
    by simp_all
  let ?m = "meta_dict w a"
  let ?m' = "meta_dict (snd (finalize_job e t a w)) a"
  note keep = finalize_job_keeps_keys[OF r en us ts]
  have A: "meta_readable (snd (finalize_job e t a w)) a"
    using keep[of k] by simp
  have B: "has_key ?m k \<longrightarrow> has_key ?m' k"
    using keep[of k] by simp
  have C: "\<not> has_key ?m ''finalizeError'' \<and> \<not> has_key ?m ''outputUrl'' \<and>
      \<not> has_key ?m ''finalizedAt'' \<longrightarrow>
        (has_key ?m' ''outputUrl'' \<and> has_key ?m' ''finalizedAt'' \<and>
         \<not> has_key ?m' ''finalizeError'') \<or>
        (has_key ?m' ''finalizeError'' \<and> \<not> has_key ?m' ''outputUrl'' \<and>
         \<not> has_key ?m' ''finalizedAt'') \<or>
        ?m' = ?m"
  proof (intro impI)
    assume none: "\<not> has_key ?m ''finalizeError'' \<and> \<not> has_key ?m ''outputUrl'' \<and>
      \<not> has_key ?m ''finalizedAt''"
    from finalize_job_outcomes[OF r en us ts]
    consider (same) "entry_of (snd (finalize_job e t a w)) a = entry_of w a"
      | (timeout) "entry_of (snd (finalize_job e t a w)) a = (entry_of w a)\<lparr>meta_json :=
          Some (JsonText (JDict (dict_set ?m ''finalizeError''
            (JStr ''Timeout waiting for RunningHub output''))))\<rparr>"
      | (success) m1 u' ts' b' where
          "m1 = ?m \<or> (\<exists>ts''. m1 = dict_set ?m ''driveOutputUploadedAt'' (JStr ts''))"
          "entry_of (snd (finalize_job e t a w)) a = (entry_of w a)\<lparr>output_png := Some b',
            meta_json := Some (JsonText (JDict
              (dict_set (dict_set m1 ''outputUrl'' (JStr u')) ''finalizedAt'' (JStr ts'))))\<rparr>"
      by blast
    then show "(has_key ?m' ''outputUrl'' \<and> has_key ?m' ''finalizedAt'' \<and>
         \<not> has_key ?m' ''finalizeError'') \<or>
        (has_key ?m' ''finalizeError'' \<and> \<not> has_key ?m' ''outputUrl'' \<and>
         \<not> has_key ?m' ''finalizedAt'') \<or>
        ?m' = ?m"
    proof cases
      case same
      then have "?m' = ?m" by (simp add: meta_dict_def)
      then show ?thesis by simp
    next
      case timeout
      then have "?m' = dict_set ?m ''finalizeError'' (JStr ''Timeout waiting for RunningHub output'')"
        by (simp add: meta_dict_def)
      with none show ?thesis by (simp add: has_key_dict_set)
    next
      case success
      from success(2) have "?m' = dict_set (dict_set m1 ''outputUrl'' (JStr u')) ''finalizedAt'' (JStr ts')"
        by (simp add: meta_dict_def)
      with none success(1) show ?thesis by (auto simp: has_key_dict_set)
    qed
  qed
  have D: "has_key ?m ''finalizeError'' \<and> output_png (entry_of w a) = None \<and>
      mkdir_ok e a \<and> j < 300 \<and>
      (\<forall>i<j. poll_url e t (length (rh_calls w) + i) = None) \<and>
      poll_url e t (length (rh_calls w) + j) = Some u \<and>
      get_reply e (length (downloads w)) u = Some b \<longrightarrow>
        has_key ?m' ''finalizeError'' \<and> has_key ?m' ''outputUrl'' \<and> has_key ?m' ''finalizedAt''"
  proof (intro impI)
    assume d: "has_key ?m ''finalizeError'' \<and> output_png (entry_of w a) = None \<and>
      mkdir_ok e a \<and> j < 300 \<and>
      (\<forall>i<j. poll_url e t (length (rh_calls w) + i) = None) \<and>
      poll_url e t (length (rh_calls w) + j) = Some u \<and>
      get_reply e (length (downloads w)) u = Some b"
    then have 1: "output_png (entry_of w a) = None" and 3: "j < 300"
      and 4: "\<forall>i<j. poll_url e t (length (rh_calls w) + i) = None"
      and 5: "poll_url e t (length (rh_calls w) + j) = Some u"
      and 6: "get_reply e (length (downloads w)) u = Some b"
      and 7: "mkdir_ok e a" and fe: "has_key ?m ''finalizeError''"
      by simp_all
    have ue: "str_encodable u" using us 5 by blast
    from finalize_job_success[OF 1 r 3 4 5 6 7 en ue ts]
    obtain m1 ts' where ok:
      "m1 = ?m \<or> (\<exists>ts''. m1 = dict_set ?m ''driveOutputUploadedAt'' (JStr ts''))"
      "entry_of (snd (finalize_job e t a w)) a =
        (entry_of w a)\<lparr>output_png := Some b, meta_json := Some (JsonText (JDict
          (dict_set (dict_set m1 ''outputUrl'' (JStr u)) ''finalizedAt'' (JStr ts'))))\<rparr>"
      by blast
    from ok(2) have "?m' = dict_set (dict_set m1 ''outputUrl'' (JStr u)) ''finalizedAt'' (JStr ts')"
      by (simp add: meta_dict_def)
    with fe ok(1)
    show "has_key ?m' ''finalizeError'' \<and> has_key ?m' ''outputUrl'' \<and> has_key ?m' ''finalizedAt''"
      by (auto simp: has_key_dict_set)
  qed
  from A B C D
  show "meta_readable (snd (finalize_job e t a w)) a \<and>
     (has_key ?m k \<longrightarrow> has_key ?m' k) \<and>
     (\<not> has_key ?m ''finalizeError'' \<and> \<not> has_key ?m ''outputUrl'' \<and>
      \<not> has_key ?m ''finalizedAt'' \<longrightarrow>
        (has_key ?m' ''outputUrl'' \<and> has_key ?m' ''finalizedAt'' \<and>
         \<not> has_key ?m' ''finalizeError'') \<or>
        (has_key ?m' ''finalizeError'' \<and> \<not> has_key ?m' ''outputUrl'' \<and>
         \<not> has_key ?m' ''finalizedAt'') \<or>
        ?m' = ?m) \<and>
     (has_key ?m ''finalizeError'' \<and> output_png (entry_of w a) = None \<and>
      mkdir_ok e a \<and> j < 300 \<and>
      (\<forall>i<j. poll_url e t (length (rh_calls w) + i) = None) \<and>
      poll_url e t (length (rh_calls w) + j) = Some u \<and>
      get_reply e (length (downloads w)) u = Some b \<longrightarrow>
        has_key ?m' ''finalizeError'' \<and> has_key ?m' ''outputUrl'' \<and> has_key ?m' ''finalizedAt'')"
    by blast
qed

text \<open>
  The witness: a run on the entry left by a submission, where the URL comes with the third
  poll, keeps the key \<^verbatim>\<open>taskId\<close> and leaves the success pair without \<^verbatim>\<open>finalizeError\<close>; and a
  successful run on the record of a timed-out one leaves all three fields.
\<close>

theorem finalize_outcome_fields_witness:
  "meta_readable (snd (finalize_job third_env (JStr ''t'') ''job'' submitted_world)) ''job'' \<and>
   has_key (meta_dict (snd (finalize_job third_env (JStr ''t'') ''job'' submitted_world)) ''job'')
     ''taskId'' \<and>
   has_key (meta_dict (snd (finalize_job third_env (JStr ''t'') ''job'' submitted_world)) ''job'')
     ''outputUrl'' \<and>
   has_key (meta_dict (snd (finalize_job third_env (JStr ''t'') ''job'' submitted_world)) ''job'')
     ''finalizedAt'' \<and>
   \<not> has_key (meta_dict (snd (finalize_job third_env (JStr ''t'') ''job'' submitted_world)) ''job'')
     ''finalizeError'' \<and>
   has_key (meta_dict (snd (finalize_job late_env (JStr ''t'') ''job''
       (snd (finalize_job late_env (JStr ''t'') ''job'' world0)))) ''job'') ''finalizeError'' \<and>
   has_key (meta_dict (snd (finalize_job late_env (JStr ''t'') ''job''
       (snd (finalize_job late_env (JStr ''t'') ''job'' world0)))) ''job'') ''outputUrl'' \<and>
   has_key (meta_dict (snd (finalize_job late_env (JStr ''t'') ''job''
       (snd (finalize_job late_env (JStr ''t'') ''job'' world0)))) ''job'') ''finalizedAt''"
proof -
  let ?w1 = "snd (finalize_job late_env (JStr ''t'') ''job'' world0)"
  have h: "meta_readable submitted_world ''job'' \<and> meta_encodable submitted_world ''job'' \<and>
   (\<forall>i u. poll_url third_env (JStr ''t'') i = Some u \<longrightarrow> str_encodable u) \<and>
   (\<forall>n. str_encodable (now_iso third_env n))"
    by (simp add: submitted_world_entry poll_url_third named_env_fields concrete_texts_encodable)
  have hk: "has_key (meta_dict submitted_world ''job'') ''taskId''"
    and none: "\<not> has_key (meta_dict submitted_world ''job'') ''finalizeError'' \<and>
      \<not> has_key (meta_dict submitted_world ''job'') ''outputUrl'' \<and>
      \<not> has_key (meta_dict submitted_world ''job'') ''finalizedAt''"
    by (simp_all add: submitted_world_entry has_key_def)
  note i1 = finalize_outcome_fields[of submitted_world "''job''" third_env "JStr ''t''"
      "''taskId''" 0 "''http://x/out.png''" "[137, 80]"]
  from i1 h hk
  have A: "meta_readable (snd (finalize_job third_env (JStr ''t'') ''job'' submitted_world)) ''job''"
    and B: "has_key (meta_dict (snd (finalize_job third_env (JStr ''t'') ''job'' submitted_world))
              ''job'') ''taskId''"
    by blast+
  from i1 h none
  have C: "(has_key (meta_dict (snd (finalize_job third_env (JStr ''t'') ''job'' submitted_world))
              ''job'') ''outputUrl'' \<and>
         has_key (meta_dict (snd (finalize_job third_env (JStr ''t'') ''job'' submitted_world))
              ''job'') ''finalizedAt'' \<and>
         \<not> has_key (meta_dict (snd (finalize_job third_env (JStr ''t'') ''job'' submitted_world))
              ''job'') ''finalizeError'') \<or>
        (has_key (meta_dict (snd (finalize_job third_env (JStr ''t'') ''job'' submitted_world))
              ''job'') ''finalizeError'' \<and>
         \<not> has_key (meta_dict (snd (finalize_job third_env (JStr ''t'') ''job'' submitted_world))
              ''job'') ''outputUrl'' \<and>
         \<not> has_key (meta_dict (snd (finalize_job third_env (JStr ''t'') ''job'' submitted_world))
              ''job'') ''finalizedAt'') \<or>
        meta_dict (snd (finalize_job third_env (JStr ''t'') ''job'' submitted_world)) ''job''
          = meta_dict submitted_world ''job''"
    by blast
  have ou: "has_key (meta_dict (snd (finalize_job third_env (JStr ''t'') ''job'' submitted_world))
              ''job'') ''outputUrl''"
    by (simp add: third_run_record has_key_def)
  from C ou none
  have C': "has_key (meta_dict (snd (finalize_job third_env (JStr ''t'') ''job'' submitted_world))
              ''job'') ''finalizedAt'' \<and>
         \<not> has_key (meta_dict (snd (finalize_job third_env (JStr ''t'') ''job'' submitted_world))
              ''job'') ''finalizeError''"
    by auto
  have h2: "meta_readable ?w1 ''job'' \<and> meta_encodable ?w1 ''job'' \<and>
   (\<forall>i u. poll_url late_env (JStr ''t'') i = Some u \<longrightarrow> str_encodable u) \<and>
   (\<forall>n. str_encodable (now_iso late_env n))"
    by (simp add: late_first_run poll_url_late named_env_fields concrete_texts_encodable)
  have d2: "has_key (meta_dict ?w1 ''job'') ''finalizeError'' \<and>
      output_png (entry_of ?w1 ''job'') = None \<and>
      mkdir_ok late_env ''job'' \<and> (0::nat) < 300 \<and>
      (\<forall>i<0. poll_url late_env (JStr ''t'') (length (rh_calls ?w1) + i) = None) \<and>
      poll_url late_env (JStr ''t'') (length (rh_calls ?w1) + 0) = Some ''http://x/out.png'' \<and>
      get_reply late_env (length (downloads ?w1)) ''http://x/out.png'' = Some [137, 80]"
    by (simp add: late_first_run poll_url_late named_env_fields has_key_def)
  from finalize_outcome_fields[of ?w1 "''job''" late_env "JStr ''t''" "''taskId''" 0
      "''http://x/out.png''" "[137, 80]"] h2 d2
  have D: "has_key (meta_dict (snd (finalize_job late_env (JStr ''t'') ''job'' ?w1)) ''job'')
             ''finalizeError'' \<and>
           has_key (meta_dict (snd (finalize_job late_env (JStr ''t'') ''job'' ?w1)) ''job'')
             ''outputUrl'' \<and>
           has_key (meta_dict (snd (finalize_job late_env (JStr ''t'') ''job'' ?w1)) ''job'')
             ''finalizedAt''"
    by blast
  from A B ou C' D show ?thesis
    by blast
qed

text \<open>
  C2 as stated fails for the very case it names. RunningHub has no output during the first
  run, which times out and records \<^verbatim>\<open>finalizeError\<close>; it has the URL during the second run,
  which succeeds. The persisted record then holds \<^verbatim>\<open>finalizeError\<close> together with \<^verbatim>\<open>outputUrl\<close>
  and \<^verbatim>\<open>finalizedAt\<close>.
\<close>

theorem finalize_success_keeps_finalizeError:
  "fst (finalize_job late_env (JStr ''t'') ''job'' world0) = Inr () \<and>
   meta_json (entry_of (snd (finalize_job late_env (JStr ''t'') ''job'' world0)) ''job'') =
     Some (JsonText (JDict [(''finalizeError'', JStr ''Timeout waiting for RunningHub output'')])) \<and>
   output_png (entry_of (snd (finalize_job late_env (JStr ''t'') ''job'' world0)) ''job'') = None \<and>
   fst (finalize_job late_env (JStr ''t'') ''job''
          (snd (finalize_job late_env (JStr ''t'') ''job'' world0))) = Inr () \<and>
   entry_of (snd (finalize_job late_env (JStr ''t'') ''job''
          (snd (finalize_job late_env (JStr ''t'') ''job'' world0)))) ''job'' =
     \<lparr>input_jpg = None, output_png = Some [137, 80],
      meta_json = Some (JsonText (JDict
        [(''finalizeError'', JStr ''Timeout waiting for RunningHub output''),
         (''outputUrl'', JStr ''http://x/out.png''),
         (''finalizedAt'', JStr ''2026-02-17T10:00:00'')]))\<rparr>"
  using late_first_run(7,8,1)[of "JStr ''t''"] late_second_run[of "JStr ''t''"]
  by simp

end
